theory Spec2Isabelle
  imports Complex_Main "HOL-Library.AList" "HOL-Library.Code_Target_Numeral"
begin

section \<open>JavaScript values as the server reads them\<close>

text \<open>
  The server (\<^verbatim>\<open>server.js\<close>) handles jobs as plain JavaScript objects parsed from JSON.
  A property of such an object is missing (\<^verbatim>\<open>undefined\<close>), \<^verbatim>\<open>null\<close>, or holds a value.
  The distinction matters: \<^verbatim>\<open>JSON.stringify\<close> leaves out a property that is
  \<^verbatim>\<open>undefined\<close> and writes \<^verbatim>\<open>null\<close> for one that is \<^verbatim>\<open>null\<close>.

  A timestamp, an ISO 8601 string in the program, is modelled by the instant it denotes:
  milliseconds since 1970-01-01T00:00:00Z, the time value of a JavaScript \<^verbatim>\<open>Date\<close>.
  A number is an IEEE 754 double (below).
\<close>

datatype 'a js = Undefined | Null | Val 'a

type_synonym instant = int

datatype exn =
    RangeError            \<comment> \<open>\<^verbatim>\<open>toISOString\<close> of an invalid \<^verbatim>\<open>Date\<close>\<close>
  | TypeError             \<comment> \<open>reading a property of \<^verbatim>\<open>null\<close>\<close>
  | SupabaseError nat     \<comment> \<open>\<^verbatim>\<open>Supabase error <status>\<close>, a response with status \<open>\<ge> 400\<close>\<close>
  | SocketError           \<comment> \<open>the \<^verbatim>\<open>'error'\<close> event of the HTTPS request\<close>
  | SyntaxError           \<comment> \<open>\<^verbatim>\<open>JSON.parse\<close> of a request body\<close>

subsection \<open>Numbers\<close>

text \<open>
  A JavaScript number is an IEEE 754 double: a finite value, an infinity, or \<^verbatim>\<open>NaN\<close>.
  A finite double is a rational \<open>m \<times> 2\<^sup>e\<close> with \<open>\<bar>m\<bar> < 2\<^sup>5\<^sup>3\<close> and \<open>-1074 \<le> e \<le> 971\<close>;
  the model holds its value, and does not tell \<open>-0\<close> from \<open>0\<close> (the program never looks
  at the sign of a zero: \<open>-0\<close> is falsy, a \<^verbatim>\<open>Date\<close> holds \<open>+0\<close>, \<^verbatim>\<open>JSON.stringify\<close> writes
  \<^verbatim>\<open>0\<close>).
\<close>

datatype number = Finite rat | Infinity | NegInfinity | NaN

text \<open>
  \<^verbatim>\<open>+\<close> and \<^verbatim>\<open>*\<close> give the exact result rounded to the nearest double, a tie going to
  the even significand, and an infinity from \<open>2\<^sup>1\<^sup>0\<^sup>2\<^sup>4\<close> on. \<open>roundToDouble\<close> is that
  rounding. There \<open>a\<close> is the magnitude in units of \<open>2\<^sup>-\<^sup>1\<^sup>0\<^sup>7\<^sup>4\<close>, the smallest positive
  double; \<open>bitlen\<close> is the number of binary digits of its integer part, so that \<open>ulp\<close> is
  the distance between the doubles around \<open>a\<close>, in the same units (1 where the doubles
  are subnormal); \<open>nearestEven\<close> rounds to the nearest integer, a tie going to the even
  one.
\<close>

fun bitlen :: "nat \<Rightarrow> nat" where
  "bitlen n = (if n = 0 then 0 else Suc (bitlen (n div 2)))"

declare bitlen.simps [simp del]

definition nearestEven :: "rat \<Rightarrow> int" where
  "nearestEven s =
     (let m = \<lfloor>s\<rfloor>; r = s - of_int m
      in if 1 / 2 < r \<or> (r = 1 / 2 \<and> odd m) then m + 1 else m)"

definition roundToDouble :: "rat \<Rightarrow> number" where
  "roundToDouble q =
     (let a = \<bar>q\<bar> * 2 ^ 1074;
          ulp = 2 ^ (bitlen (nat \<lfloor>a\<rfloor>) - 53);
          v = of_int (nearestEven (a / ulp)) * ulp / 2 ^ 1074
      in if 2 ^ 1024 \<le> v then (if q < 0 then NegInfinity else Infinity)
         else Finite (if q < 0 then - v else v))"

fun fadd :: "number \<Rightarrow> number \<Rightarrow> number" where
  "fadd (Finite a) (Finite b) = roundToDouble (a + b)"
| "fadd NaN y = NaN"
| "fadd x NaN = NaN"
| "fadd Infinity NegInfinity = NaN"
| "fadd NegInfinity Infinity = NaN"
| "fadd Infinity y = Infinity"
| "fadd NegInfinity y = NegInfinity"
| "fadd x Infinity = Infinity"
| "fadd x NegInfinity = NegInfinity"

fun negative :: "number \<Rightarrow> bool" where
  "negative (Finite a) = (a < 0)"
| "negative NegInfinity = True"
| "negative x = False"

fun fmul :: "number \<Rightarrow> number \<Rightarrow> number" where
  "fmul (Finite a) (Finite b) = roundToDouble (a * b)"
| "fmul x y =
     (if x = NaN \<or> y = NaN \<or> x = Finite 0 \<or> y = Finite 0 then NaN
      else if negative x = negative y then Infinity else NegInfinity)"

text \<open>\<^verbatim>\<open>x || d\<close> on a number: \<^verbatim>\<open>undefined\<close>, \<^verbatim>\<open>null\<close>, \<open>0\<close> and \<^verbatim>\<open>NaN\<close> are falsy.\<close>

fun or_number :: "number js \<Rightarrow> number \<Rightarrow> number" where
  "or_number (Val n) d = (if n = Finite 0 \<or> n = NaN then d else n)"
| "or_number _ d = d"

text \<open>\<^verbatim>\<open>x || d\<close> on an array or on a timestamp string: every array is truthy (the empty
  one too), and so is every string that denotes an instant (it is not empty).\<close>

fun or_value :: "'a js \<Rightarrow> 'a \<Rightarrow> 'a" where
  "or_value (Val v) d = v"
| "or_value _ d = d"

text \<open>\<^verbatim>\<open>!x\<close> on such a value.\<close>

fun falsy :: "'a js \<Rightarrow> bool" where
  "falsy (Val v) = False"
| "falsy _ = True"

subsection \<open>Dates\<close>

text \<open>
  A \<^verbatim>\<open>Date\<close> holds a time value, an integer of at most \<open>8.64 \<times> 10\<^sup>1\<^sup>5\<close> ms on either
  side of the epoch, or is invalid (time value \<^verbatim>\<open>NaN\<close>, here \<open>None\<close>). \<^verbatim>\<open>new Date(v)\<close>
  of a number clips it: a value outside the range, an infinity or \<^verbatim>\<open>NaN\<close> gives an
  invalid date, a value of the range is truncated to an integer. \<^verbatim>\<open>new Date(s)\<close> of a
  string (\<open>parseDate\<close>) is invalid when the string denotes no instant of the range; a
  string that gives an invalid date stands here as an instant outside the range.
  \<^verbatim>\<open>getTime\<close> of an invalid date is \<^verbatim>\<open>NaN\<close>, and \<^verbatim>\<open>toISOString\<close> of an invalid date
  throws \<^verbatim>\<open>RangeError\<close>.
\<close>

definition maxTime :: int where
  "maxTime = 8640000000000000"

definition inRange :: "rat \<Rightarrow> bool" where
  "inRange v = (\<bar>v\<bar> \<le> of_int maxTime)"

definition trunc :: "rat \<Rightarrow> int" where
  "trunc q = (if 0 \<le> q then \<lfloor>q\<rfloor> else \<lceil>q\<rceil>)"

definition newDate :: "number \<Rightarrow> instant option" where
  "newDate v =
     (case v of
        Finite q \<Rightarrow> if inRange q then Some (trunc q) else None
      | _ \<Rightarrow> None)"

definition parseDate :: "instant \<Rightarrow> instant option" where
  "parseDate t = (if inRange (of_int t) then Some t else None)"

definition getTime :: "instant option \<Rightarrow> number" where
  "getTime d = (case d of None \<Rightarrow> NaN | Some t \<Rightarrow> Finite (of_int t))"

definition toISOString :: "instant option \<Rightarrow> exn + instant" where
  "toISOString d = (case d of None \<Rightarrow> Inl RangeError | Some t \<Rightarrow> Inr t)"

text \<open>The instant an ISO 8601 timestamp \<^verbatim>\<open>YYYY-MM-DDTHH:MM:SSZ\<close> denotes (proleptic
  Gregorian calendar, as \<^verbatim>\<open>Date.UTC\<close> computes it): used to write examples.\<close>

definition daysFromCivil :: "int \<Rightarrow> int \<Rightarrow> int \<Rightarrow> int" where
  "daysFromCivil y m d =
     (let y' = (if m \<le> 2 then y - 1 else y);
          era = y' div 400;
          yoe = y' - era * 400;
          doy = (153 * (if m > 2 then m - 3 else m + 9) + 2) div 5 + d - 1;
          doe = yoe * 365 + yoe div 4 - yoe div 100 + doy
      in era * 146097 + doe - 719468)"

definition utc :: "int \<Rightarrow> int \<Rightarrow> int \<Rightarrow> int \<Rightarrow> int \<Rightarrow> int \<Rightarrow> instant" where
  "utc y m d hh mm ss = ((daysFromCivil y m d * 24 + hh) * 60 + mm) * 60000 + ss * 1000"

section \<open>The job\<close>

record segment =
  duration :: "number js"

record delay =
  minutes :: "number js"

text \<open>
  A job, with the properties the server reads; a job may have others, which the server
  passes on and never reads. \<open>id_job\<close> is the property \<^verbatim>\<open>id\<close> (\<open>id\<close> is the identity
  function of HOL). A segment and a delay are objects of which the server reads one
  number; an element of the arrays \<^verbatim>\<open>segments\<close> and \<^verbatim>\<open>delays\<close> is such an object or
  \<^verbatim>\<open>null\<close> (\<open>None\<close>), and reading a property of \<^verbatim>\<open>null\<close> throws \<^verbatim>\<open>TypeError\<close>.
\<close>

record job =
  id_job :: "string js"
  name :: "string js"
  startTime :: "instant js"
  segments :: "segment option list js"
  delays :: "delay option list js"
  nextSegmentId :: "number js"
  createdAt :: "instant js"
  lastUpdated :: "instant js"
  expiresAt :: "instant js"

text \<open>
  What the body of a request parses to: a job, or \<^verbatim>\<open>null\<close>. A body that is a number, a
  string, a boolean or an array has none of the properties the server reads, and stands
  here as the job without properties. A property whose value has another type than the
  data model gives it (a duration that is a string, say) is outside this model.
\<close>

datatype parsed = Json_null | Json_object job

subsection \<open>\<^verbatim>\<open>calculateExpiresAt\<close>\<close>

text \<open>
  \<^verbatim>\<open>
  function calculateExpiresAt(job) {
      if (!job.startTime) return null;
      const startTime = new Date(job.startTime);
      let totalMinutes = 0;
      if (Array.isArray(job.segments)) {
          job.segments.forEach(s => { totalMinutes += s.duration || 0; });
      }
      const totalDelays = Array.isArray(job.delays)
          ? job.delays.reduce((sum, d) => sum + (d.minutes || 0), 0)
          : 0;
      const expiresAt = new Date(startTime.getTime() + (totalMinutes + totalDelays + 24 * 60) * 60000);
      return expiresAt.toISOString();
  }
  \<close>
  The result is \<open>Inr None\<close> for \<^verbatim>\<open>null\<close>, \<open>Inr (Some t)\<close> for the timestamp of \<open>t\<close>,
  \<open>Inl TypeError\<close> when an element of \<^verbatim>\<open>segments\<close> or of \<^verbatim>\<open>delays\<close> is \<^verbatim>\<open>null\<close>, and
  \<open>Inl RangeError\<close> when \<^verbatim>\<open>toISOString\<close> throws. \<open>forEach_duration\<close> is the \<^verbatim>\<open>forEach\<close>
  loop, with \<^verbatim>\<open>totalMinutes\<close> as its state, and \<open>reduce_minutes\<close> the \<^verbatim>\<open>reduce\<close>, with its
  accumulator; every \<^verbatim>\<open>+\<close> and \<^verbatim>\<open>*\<close> is one of doubles.
\<close>

fun forEach_duration :: "segment option list \<Rightarrow> number \<Rightarrow> exn + number" where
  "forEach_duration [] totalMinutes = Inr totalMinutes"
| "forEach_duration (None # xs) totalMinutes = Inl TypeError"
| "forEach_duration (Some s # xs) totalMinutes =
     forEach_duration xs (fadd totalMinutes (or_number (duration s) (Finite 0)))"

fun reduce_minutes :: "delay option list \<Rightarrow> number \<Rightarrow> exn + number" where
  "reduce_minutes [] totalDelays = Inr totalDelays"
| "reduce_minutes (None # xs) totalDelays = Inl TypeError"
| "reduce_minutes (Some d # xs) totalDelays =
     reduce_minutes xs (fadd totalDelays (or_number (minutes d) (Finite 0)))"

definition segmentMinutes :: "segment option list js \<Rightarrow> exn + number" where
  "segmentMinutes ss = (case ss of Val xs \<Rightarrow> forEach_duration xs (Finite 0) | _ \<Rightarrow> Inr (Finite 0))"

definition delayMinutes :: "delay option list js \<Rightarrow> exn + number" where
  "delayMinutes ds = (case ds of Val xs \<Rightarrow> reduce_minutes xs (Finite 0) | _ \<Rightarrow> Inr (Finite 0))"

definition calculateExpiresAt :: "job \<Rightarrow> exn + instant option" where
  "calculateExpiresAt job =
     (if falsy (startTime job) then Inr None
      else
        let startTime = (case startTime job of Val s \<Rightarrow> parseDate s | _ \<Rightarrow> None)
        in case segmentMinutes (segments job) of
             Inl e \<Rightarrow> Inl e
           | Inr totalMinutes \<Rightarrow>
               (case delayMinutes (delays job) of
                  Inl e \<Rightarrow> Inl e
                | Inr totalDelays \<Rightarrow>
                    let expiresAt =
                          newDate (fadd (getTime startTime)
                            (fmul (fadd (fadd totalMinutes totalDelays) (Finite (24 * 60)))
                               (Finite 60000)))
                    in (case toISOString expiresAt of Inl e \<Rightarrow> Inl e | Inr t \<Rightarrow> Inr (Some t))))"

section \<open>The store\<close>

text \<open>
  A row of the \<^verbatim>\<open>jobs\<close> table, and the object a request carries as its body: the
  columns the server names. In a body, \<open>Undefined\<close> is a key the object does not have
  (\<^verbatim>\<open>JSON.stringify\<close> drops it); a stored row holds \<open>Null\<close> or a value. The columns
  \<^verbatim>\<open>name\<close>, \<^verbatim>\<open>segments\<close> and \<^verbatim>\<open>delays\<close> are \<open>name_col\<close>, \<open>segments_col\<close> and \<open>delays_col\<close>
  here: the fields of the job have these names already. (\<^verbatim>\<open>JSON.stringify\<close> writes a
  number that is an infinity or \<^verbatim>\<open>NaN\<close> as \<^verbatim>\<open>null\<close>; a body here holds the number, and
  no property below depends on such a number in a row.)
\<close>

record row =
  job_id :: "string js"
  name_col :: "string js"
  start_time :: "instant js"
  segments_col :: "segment option list js"
  delays_col :: "delay option list js"
  next_segment_id :: "number js"
  created_at :: "instant js"
  last_updated :: "instant js"
  expires_at :: "instant js"

datatype verb = GET | POST | PATCH | DELETE

text \<open>The query parameters the server puts after \<^verbatim>\<open>jobs?\<close>:
  \<^verbatim>\<open>job_id=eq.X\<close>, \<^verbatim>\<open>expires_at=lt.T\<close>, \<^verbatim>\<open>expires_at=not.is.null\<close> and
  \<^verbatim>\<open>order=created_at.desc\<close>.\<close>

datatype param =
    Job_id_eq string
  | Expires_at_lt instant
  | Expires_at_not_is_null
  | Order_created_at_desc

text \<open>What comes back on the wire: a status code with a body that is a JSON array of rows,
  some other JSON value, text that is not JSON, or nothing; or no response at all.\<close>

datatype data = Json_rows "row list" | Json_other | Not_json | No_data

datatype response = Response nat data | Socket_error

text \<open>
  Modelled from the spec: the external store behind the persistence adapter (a PostgREST
  service; none of its code is in the repository). Section 4.1 of the specification gives
  its contract: \<open>find(filter)\<close>, \<open>insert(row)\<close>, \<open>patch(filter, partialRow)\<close>,
  \<open>delete(filter)\<close>, with filters that are equality and comparison predicates on columns,
  all of which a row must satisfy; section 3 makes the job id the unique primary key.
  A comparison with a null column selects nothing, a patch writes exactly the columns
  its body has, and an insert stores null for a column its body lacks.
\<close>

fun matches :: "param \<Rightarrow> row \<Rightarrow> bool" where
  "matches (Job_id_eq v) r = (job_id r = Val v)"
| "matches (Expires_at_lt t) r = (case expires_at r of Val e \<Rightarrow> e < t | _ \<Rightarrow> False)"
| "matches Expires_at_not_is_null r = (case expires_at r of Val e \<Rightarrow> True | _ \<Rightarrow> False)"
| "matches Order_created_at_desc r = True"

definition selected :: "param list \<Rightarrow> row \<Rightarrow> bool" where
  "selected ps r = list_all (\<lambda>p. matches p r) ps"

text \<open>\<^verbatim>\<open>order=created_at.desc\<close>: newest first, nulls first, otherwise in table order.\<close>

fun precedes :: "row \<Rightarrow> row \<Rightarrow> bool" where
  "precedes r x =
     (case created_at r of
        Val a \<Rightarrow> (case created_at x of Val b \<Rightarrow> b \<le> a | _ \<Rightarrow> False)
      | _ \<Rightarrow> True)"

fun insert_desc :: "row \<Rightarrow> row list \<Rightarrow> row list" where
  "insert_desc r [] = [r]"
| "insert_desc r (x # xs) = (if precedes r x then r # x # xs else x # insert_desc r xs)"

definition ordered :: "param list \<Rightarrow> row list \<Rightarrow> row list" where
  "ordered ps rs = (if Order_created_at_desc \<in> set ps then foldr insert_desc rs [] else rs)"

fun written :: "'a js \<Rightarrow> 'a js \<Rightarrow> 'a js" where
  "written Undefined old = old"
| "written v old = v"

definition patch_row :: "row \<Rightarrow> row \<Rightarrow> row" where
  "patch_row b r =
     \<lparr> job_id = written (job_id b) (job_id r),
       name_col = written (name_col b) (name_col r),
       start_time = written (start_time b) (start_time r),
       segments_col = written (segments_col b) (segments_col r),
       delays_col = written (delays_col b) (delays_col r),
       next_segment_id = written (next_segment_id b) (next_segment_id r),
       created_at = written (created_at b) (created_at r),
       last_updated = written (last_updated b) (last_updated r),
       expires_at = written (expires_at b) (expires_at r) \<rparr>"

definition null_row :: row where
  "null_row =
     \<lparr> job_id = Null, name_col = Null, start_time = Null, segments_col = Null,
       delays_col = Null, next_segment_id = Null, created_at = Null, last_updated = Null,
       expires_at = Null \<rparr>"

definition primary_key_ok :: "row list \<Rightarrow> bool" where
  "primary_key_ok tbl =
     (distinct (map job_id tbl) \<and> list_all (\<lambda>r. case job_id r of Val k \<Rightarrow> True | _ \<Rightarrow> False) tbl)"

text \<open>A store answers a request (verb, query parameters, body) on a table with a
  response, and leaves a table.\<close>

type_synonym store = "verb \<Rightarrow> param list \<Rightarrow> row option \<Rightarrow> row list \<Rightarrow> response \<times> row list"

text \<open>
  Modelled from the spec: what the external store does with each request the adapter
  sends (section 4.1). \<^verbatim>\<open>GET\<close> finds the rows that satisfy the filters, \<^verbatim>\<open>POST\<close> inserts
  the body as a row unless its id is missing or taken, \<^verbatim>\<open>PATCH\<close> writes the columns of
  the body into the rows that satisfy the filters, \<^verbatim>\<open>DELETE\<close> removes those rows. A
  request without a match still succeeds, with an empty array.
\<close>

definition postgrest :: store where
  "postgrest m ps body tbl =
     (case m of
        GET \<Rightarrow> (Response 200 (Json_rows (ordered ps (filter (selected ps) tbl))), tbl)
      | POST \<Rightarrow>
          (case body of
             None \<Rightarrow> (Response 400 Json_other, tbl)
           | Some b \<Rightarrow>
               (case job_id b of
                  Val k \<Rightarrow>
                    if Val k \<in> set (map job_id tbl) then (Response 409 Json_other, tbl)
                    else (Response 201 (Json_rows [patch_row b null_row]),
                          tbl @ [patch_row b null_row])
                | _ \<Rightarrow> (Response 400 Json_other, tbl)))
      | PATCH \<Rightarrow>
          (case body of
             None \<Rightarrow> (Response 400 Json_other, tbl)
           | Some b \<Rightarrow>
               (let tbl' = map (\<lambda>r. if selected ps r then patch_row b r else r) tbl
                in if job_id b = Undefined \<or> primary_key_ok tbl'
                   then (Response 200 (Json_rows (filter (selected ps) tbl')), tbl')
                   else (Response 409 Json_other, tbl)))
      | DELETE \<Rightarrow>
          (Response 200 (Json_rows (filter (selected ps) tbl)),
           filter (\<lambda>r. \<not> selected ps r) tbl))"

text \<open>The store answers a request as above, or is in a fault and answers every request
  without touching the table: it cannot be reached; it gives an error status (\<open>400 + n\<close>)
  with a JSON error object; or something in front of it gives a page that is not JSON,
  under any status.\<close>

datatype condition = Up | Unreachable | Http_error nat | Garbled nat

definition service :: "condition \<Rightarrow> store" where
  "service c m ps body tbl =
     (case c of
        Up \<Rightarrow> postgrest m ps body tbl
      | Unreachable \<Rightarrow> (Socket_error, tbl)
      | Http_error n \<Rightarrow> (Response (400 + n) Json_other, tbl)
      | Garbled statusCode \<Rightarrow> (Response statusCode Not_json, tbl))"

section \<open>The persistence adapter\<close>

text \<open>
  \<^verbatim>\<open>
  res.on('end', () => {
      try {
          const parsed = data ? JSON.parse(data) : null;
          if (res.statusCode >= 400) {
              reject(new Error(`Supabase error ${res.statusCode}: ${data}`));
          } else {
              resolve(parsed);
          }
      } catch (e) {
          resolve(data);
      }
  });
  ...
  req.on('error', reject);
  \<close>
  The promise resolves with an array of rows or with something that is no array
  (\<^verbatim>\<open>null\<close>, an object, a string), or is rejected. A body that is not JSON makes
  \<^verbatim>\<open>JSON.parse\<close> throw before the status is looked at, and the promise resolves with
  the text.
\<close>

datatype resolved = Array "row list" | Not_array

definition settle :: "response \<Rightarrow> exn + resolved" where
  "settle r =
     (case r of
        Socket_error \<Rightarrow> Inl SocketError
      | Response statusCode d \<Rightarrow>
          (case d of
             Not_json \<Rightarrow> Inr Not_array
           | No_data \<Rightarrow> if statusCode \<ge> 400 then Inl (SupabaseError statusCode) else Inr Not_array
           | Json_other \<Rightarrow> if statusCode \<ge> 400 then Inl (SupabaseError statusCode) else Inr Not_array
           | Json_rows rs \<Rightarrow> if statusCode \<ge> 400 then Inl (SupabaseError statusCode) else Inr (Array rs)))"

text \<open>\<open>supabaseRequest\<close> sends the request to the store, whatever store that is, and
  settles the promise on what comes back.\<close>

definition supabaseRequest :: "store \<Rightarrow> verb \<Rightarrow> param list \<Rightarrow> row option \<Rightarrow> row list \<Rightarrow> (exn + resolved) \<times> row list" where
  "supabaseRequest s m endpoint body tbl =
     (case s m endpoint body tbl of (r, tbl') \<Rightarrow> (settle r, tbl'))"

section \<open>The job repository\<close>

text \<open>
  The state the functions act on: the table of the store, and the lines written to the
  console. Each function makes at most one request; \<open>s\<close> is the store that answers it
  (any store: \<open>service c\<close> is the one modelled above, in condition \<open>c\<close>).
  \<^verbatim>\<open>new Date()\<close> reads the clock; the readings are arguments (\<open>createJob\<close> reads it
  twice).
  A function that returns a job or \<^verbatim>\<open>null\<close> returns a \<open>job option\<close>. \<open>createJob\<close> and
  \<open>updateJob\<close> are given what the body of the request parsed to.
\<close>

datatype line =
    Error_line string exn     \<comment> \<open>\<^verbatim>\<open>console.error(label, err.message)\<close>\<close>
  | Cleanup_ran_at instant    \<comment> \<open>\<^verbatim>\<open>console.log(`Cleanup ran at ${now}`)\<close>\<close>

record world =
  table :: "row list"
  console :: "line list"
  html :: "string option"   \<comment> \<open>the page served at \<^verbatim>\<open>/\<close>, when the file can be read\<close>

definition logged :: "line \<Rightarrow> world \<Rightarrow> world" where
  "logged l w = w\<lparr>console := console w @ [l]\<rparr>"

text \<open>
  \<^verbatim>\<open>
  function rowToJob(row) {
      return { id: row.job_id, name: row.name, startTime: row.start_time,
               segments: row.segments, delays: row.delays || [],
               nextSegmentId: row.next_segment_id, createdAt: row.created_at,
               lastUpdated: row.last_updated, expiresAt: row.expires_at };
  }
  \<close>
\<close>

definition rowToJob :: "row \<Rightarrow> job" where
  "rowToJob row =
     \<lparr> id_job = job_id row,
       name = name_col row,
       startTime = start_time row,
       segments = segments_col row,
       delays = Val (or_value (delays_col row) []),
       nextSegmentId = next_segment_id row,
       createdAt = created_at row,
       lastUpdated = last_updated row,
       expiresAt = expires_at row \<rparr>"

text \<open>The property key \<^verbatim>\<open>jobs[row.job_id]\<close>: a key is a string.\<close>

fun property_key :: "string js \<Rightarrow> string" where
  "property_key (Val s) = s"
| "property_key Null = ''null''"
| "property_key Undefined = ''undefined''"

text \<open>
  \<^verbatim>\<open>
  async function getAllJobs() {
      try {
          const rows = await supabaseRequest('GET', 'jobs?order=created_at.desc');
          const jobs = {};
          if (Array.isArray(rows)) {
              rows.forEach(row => { jobs[row.job_id] = rowToJob(row); });
          }
          return jobs;
      } catch (err) {
          console.error('getAllJobs error:', err.message);
          return {};
      }
  }
  \<close>
  The object \<^verbatim>\<open>jobs\<close> is an association list: an assignment to a key it has replaces
  the entry, one to a new key adds an entry at the end; an assignment to \<^verbatim>\<open>__proto__\<close>
  sets the prototype and adds no entry. (The order in which \<^verbatim>\<open>JSON.stringify\<close> lists
  keys that are array indices is not modelled.)
\<close>

definition assign :: "string \<Rightarrow> job \<Rightarrow> (string \<times> job) list \<Rightarrow> (string \<times> job) list" where
  "assign k v jobs = (if k = ''__proto__'' then jobs else AList.update k v jobs)"

definition getAllJobs :: "store \<Rightarrow> world \<Rightarrow> (string \<times> job) list \<times> world" where
  "getAllJobs s w =
     (case supabaseRequest s GET [Order_created_at_desc] None (table w) of
        (Inr rows, tbl) \<Rightarrow>
          ((case rows of
              Array rs \<Rightarrow>
                fold (\<lambda>row jobs. assign (property_key (job_id row)) (rowToJob row) jobs) rs []
            | Not_array \<Rightarrow> []),
           w\<lparr>table := tbl\<rparr>)
      | (Inl err, tbl) \<Rightarrow> ([], logged (Error_line ''getAllJobs error:'' err) (w\<lparr>table := tbl\<rparr>)))"

text \<open>
  \<^verbatim>\<open>
  async function getJob(jobId) {
      try {
          const rows = await supabaseRequest('GET', `jobs?job_id=eq.${encodeURIComponent(jobId)}`);
          if (!Array.isArray(rows) || rows.length === 0) return null;
          return rowToJob(rows[0]);
      } catch (err) {
          console.error('getJob error:', err.message);
          return null;
      }
  }
  \<close>
\<close>

definition getJob :: "store \<Rightarrow> string \<Rightarrow> world \<Rightarrow> job option \<times> world" where
  "getJob s jobId w =
     (case supabaseRequest s GET [Job_id_eq jobId] None (table w) of
        (Inr rows, tbl) \<Rightarrow>
          ((case rows of
              Array [] \<Rightarrow> None
            | Array (r # rs) \<Rightarrow> Some (rowToJob r)
            | Not_array \<Rightarrow> None),
           w\<lparr>table := tbl\<rparr>)
      | (Inl err, tbl) \<Rightarrow> (None, logged (Error_line ''getJob error:'' err) (w\<lparr>table := tbl\<rparr>)))"

text \<open>
  \<^verbatim>\<open>
  async function createJob(job) {
      try {
          const row = {
              job_id: job.id, name: job.name, start_time: job.startTime,
              segments: job.segments, delays: job.delays || [],
              next_segment_id: job.nextSegmentId || 6,
              created_at: job.createdAt || new Date().toISOString(),
              last_updated: new Date().toISOString(),
              expires_at: calculateExpiresAt(job)
          };
          await supabaseRequest('POST', 'jobs', row);
          return job;
      } catch (err) {
          console.error('createJob error:', err.message);
          return null;
      }
  }
  \<close>
  \<open>createRow\<close> is the object literal on a job; \<open>now1\<close> and \<open>now2\<close> are the two readings
  of the clock. It fails when \<^verbatim>\<open>calculateExpiresAt\<close> throws. On \<^verbatim>\<open>null\<close> the literal
  throws \<^verbatim>\<open>TypeError\<close> at \<^verbatim>\<open>job.id\<close>, the first property it reads. Either exception is
  caught in the function: no request is sent, and the function returns \<^verbatim>\<open>null\<close>.
\<close>

fun nullable :: "'a option \<Rightarrow> 'a js" where
  "nullable None = Null"
| "nullable (Some v) = Val v"

definition createRow :: "instant \<Rightarrow> instant \<Rightarrow> job \<Rightarrow> exn + row" where
  "createRow now1 now2 job =
     (case calculateExpiresAt job of
        Inl err \<Rightarrow> Inl err
      | Inr e \<Rightarrow>
          Inr \<lparr> job_id = id_job job,
                name_col = name job,
                start_time = startTime job,
                segments_col = segments job,
                delays_col = Val (or_value (delays job) []),
                next_segment_id = Val (or_number (nextSegmentId job) (Finite 6)),
                created_at = Val (or_value (createdAt job) now1),
                last_updated = Val now2,
                expires_at = nullable e \<rparr>)"

definition createJob :: "store \<Rightarrow> instant \<Rightarrow> instant \<Rightarrow> parsed \<Rightarrow> world \<Rightarrow> job option \<times> world" where
  "createJob s now1 now2 body w =
     (case body of
        Json_null \<Rightarrow> (None, logged (Error_line ''createJob error:'' TypeError) w)
      | Json_object job \<Rightarrow>
          (case createRow now1 now2 job of
             Inl err \<Rightarrow> (None, logged (Error_line ''createJob error:'' err) w)
           | Inr row \<Rightarrow>
               (case supabaseRequest s POST [] (Some row) (table w) of
                  (Inr r, tbl) \<Rightarrow> (Some job, w\<lparr>table := tbl\<rparr>)
                | (Inl err, tbl) \<Rightarrow>
                    (None, logged (Error_line ''createJob error:'' err) (w\<lparr>table := tbl\<rparr>)))))"

text \<open>
  \<^verbatim>\<open>
  async function updateJob(jobId, job) {
      try {
          const row = {
              name: job.name, start_time: job.startTime, segments: job.segments,
              delays: job.delays || [], next_segment_id: job.nextSegmentId || 6,
              last_updated: new Date().toISOString(),
              expires_at: calculateExpiresAt(job)
          };
          await supabaseRequest('PATCH', `jobs?job_id=eq.${encodeURIComponent(jobId)}`, row);
          return { ...job, lastUpdated: row.last_updated };
      } catch (err) {
          console.error('updateJob error:', err.message);
          return null;
      }
  }
  \<close>
  The literal has no \<^verbatim>\<open>job_id\<close> and no \<^verbatim>\<open>created_at\<close> key. On \<^verbatim>\<open>null\<close> it throws
  \<^verbatim>\<open>TypeError\<close> at \<^verbatim>\<open>job.name\<close>.
\<close>

definition updateRow :: "instant \<Rightarrow> job \<Rightarrow> exn + row" where
  "updateRow now job =
     (case calculateExpiresAt job of
        Inl err \<Rightarrow> Inl err
      | Inr e \<Rightarrow>
          Inr \<lparr> job_id = Undefined,
                name_col = name job,
                start_time = startTime job,
                segments_col = segments job,
                delays_col = Val (or_value (delays job) []),
                next_segment_id = Val (or_number (nextSegmentId job) (Finite 6)),
                created_at = Undefined,
                last_updated = Val now,
                expires_at = nullable e \<rparr>)"

definition updateJob :: "store \<Rightarrow> instant \<Rightarrow> string \<Rightarrow> parsed \<Rightarrow> world \<Rightarrow> job option \<times> world" where
  "updateJob s now jobId body w =
     (case body of
        Json_null \<Rightarrow> (None, logged (Error_line ''updateJob error:'' TypeError) w)
      | Json_object job \<Rightarrow>
          (case updateRow now job of
             Inl err \<Rightarrow> (None, logged (Error_line ''updateJob error:'' err) w)
           | Inr row \<Rightarrow>
               (case supabaseRequest s PATCH [Job_id_eq jobId] (Some row) (table w) of
                  (Inr r, tbl) \<Rightarrow> (Some (job\<lparr>lastUpdated := last_updated row\<rparr>), w\<lparr>table := tbl\<rparr>)
                | (Inl err, tbl) \<Rightarrow>
                    (None, logged (Error_line ''updateJob error:'' err) (w\<lparr>table := tbl\<rparr>)))))"

text \<open>
  \<^verbatim>\<open>
  async function deleteJob(jobId) {
      try {
          await supabaseRequest('DELETE', `jobs?job_id=eq.${encodeURIComponent(jobId)}`);
          return true;
      } catch (err) {
          console.error('deleteJob error:', err.message);
          return false;
      }
  }
  \<close>
\<close>

definition deleteJob :: "store \<Rightarrow> string \<Rightarrow> world \<Rightarrow> bool \<times> world" where
  "deleteJob s jobId w =
     (case supabaseRequest s DELETE [Job_id_eq jobId] None (table w) of
        (Inr r, tbl) \<Rightarrow> (True, w\<lparr>table := tbl\<rparr>)
      | (Inl err, tbl) \<Rightarrow> (False, logged (Error_line ''deleteJob error:'' err) (w\<lparr>table := tbl\<rparr>)))"

text \<open>
  \<^verbatim>\<open>
  async function cleanupExpiredJobs() {
      try {
          const now = new Date().toISOString();
          await supabaseRequest('DELETE', `jobs?expires_at=lt.${now}&expires_at=not.is.null`);
          console.log(`Cleanup ran at ${now}`);
      } catch (err) {
          console.error('Cleanup error:', err.message);
      }
  }
  \<close>
  The specification calls it \<open>purgeExpiredJobs\<close>.
\<close>

definition cleanupExpiredJobs :: "store \<Rightarrow> instant \<Rightarrow> world \<Rightarrow> world" where
  "cleanupExpiredJobs s now w =
     (case supabaseRequest s DELETE [Expires_at_lt now, Expires_at_not_is_null] None (table w) of
        (Inr r, tbl) \<Rightarrow> logged (Cleanup_ran_at now) (w\<lparr>table := tbl\<rparr>)
      | (Inl err, tbl) \<Rightarrow> logged (Error_line ''Cleanup error:'' err) (w\<lparr>table := tbl\<rparr>))"

section \<open>The HTTP server\<close>

text \<open>
  A request is its method, the path of its URL and its body: \<open>None\<close> when the body is
  not JSON (\<^verbatim>\<open>readBody\<close> rejects with the \<^verbatim>\<open>SyntaxError\<close> of \<^verbatim>\<open>JSON.parse\<close>), what it
  parses to otherwise. A response is its status code and its body; the CORS headers and
  the content type, the same on every path, are left out.
\<close>

record request =
  req_method :: string
  pathname :: string
  payload :: "parsed option"

datatype content =
    Jobs_json "(string \<times> job) list"   \<comment> \<open>\<^verbatim>\<open>JSON.stringify(jobs)\<close>\<close>
  | Job_json job
  | Null_json                            \<comment> \<open>\<^verbatim>\<open>JSON.stringify(null)\<close>\<close>
  | Error_json string                    \<comment> \<open>\<^verbatim>\<open>{ error: ... }\<close>\<close>
  | Success_json                         \<comment> \<open>\<^verbatim>\<open>{ success: true }\<close>\<close>
  | File_data string
  | Plain string
  | Empty

record reply =
  status :: nat
  content :: content

text \<open>\<^verbatim>\<open>s.startsWith(p)\<close> and \<^verbatim>\<open>s.split('/')\<close>.\<close>

definition startsWith :: "string \<Rightarrow> string \<Rightarrow> bool" where
  "startsWith s p = (take (length p) s = p)"

fun split_slash :: "string \<Rightarrow> string list" where
  "split_slash [] = [[]]"
| "split_slash (x # xs) =
     (if x = CHR ''/'' then [] # split_slash xs
      else (case split_slash xs of [] \<Rightarrow> [[x]] | y # ys \<Rightarrow> (x # y) # ys))"

text \<open>\<^verbatim>\<open>pathname.split('/')[3]\<close>; an index past the end reads \<^verbatim>\<open>undefined\<close>, which
  \<^verbatim>\<open>encodeURIComponent\<close> turns into the text \<^verbatim>\<open>undefined\<close>.\<close>

definition jobIdOf :: "string \<Rightarrow> string" where
  "jobIdOf p = (let parts = split_slash p in if 3 < length parts then parts ! 3 else ''undefined'')"

text \<open>
  \<^verbatim>\<open>
  const server = http.createServer(async (req, res) => {
      setCORSHeaders(res);
      if (req.method === 'OPTIONS') { res.writeHead(200); res.end(); return; }
      const pathname = url.parse(req.url).pathname;
      try {
          if (pathname === '/' || pathname === '/index.html') {
              serveStaticFile(path.join(__dirname, 'road-surfacing-tracker-realtime.html'), res);
              return;
          }
          if (req.method === 'GET' && pathname === '/api/jobs') {
              const jobs = await getAllJobs();
              res.writeHead(200, ...); res.end(JSON.stringify(jobs)); return;
          }
          if (req.method === 'GET' && pathname.startsWith('/api/jobs/')) {
              const jobId = pathname.split('/')[3];
              const job = await getJob(jobId);
              if (job) { res.writeHead(200, ...); res.end(JSON.stringify(job)); }
              else { res.writeHead(404, ...); res.end(JSON.stringify({ error: 'Job not found' })); }
              return;
          }
          if (req.method === 'POST' && pathname === '/api/jobs') {
              const job = await readBody(req);
              const created = await createJob(job);
              res.writeHead(201, ...); res.end(JSON.stringify(created)); return;
          }
          if (req.method === 'PUT' && pathname.startsWith('/api/jobs/')) {
              const jobId = pathname.split('/')[3];
              const job = await readBody(req);
              const updated = await updateJob(jobId, job);
              if (updated) { res.writeHead(200, ...); res.end(JSON.stringify(updated)); }
              else { res.writeHead(404, ...); res.end(JSON.stringify({ error: 'Job not found' })); }
              return;
          }
          if (req.method === 'DELETE' && pathname.startsWith('/api/jobs/')) {
              const jobId = pathname.split('/')[3];
              await deleteJob(jobId);
              res.writeHead(200, ...); res.end(JSON.stringify({ success: true })); return;
          }
          if (req.method === 'POST' && pathname === '/api/cleanup') {
              await cleanupExpiredJobs();
              res.writeHead(200, ...); res.end(JSON.stringify({ success: true })); return;
          }
          res.writeHead(404, ...); res.end(JSON.stringify({ error: 'Not found' }));
      } catch (err) {
          console.error('Request error:', err);
          res.writeHead(500, ...); res.end(JSON.stringify({ error: 'Internal server error' }));
      }
  });
  \<close>
\<close>

definition serveStaticFile :: "world \<Rightarrow> reply" where
  "serveStaticFile w =
     (case html w of
        None \<Rightarrow> \<lparr>status = 404, content = Plain ''Not found''\<rparr>
      | Some d \<Rightarrow> \<lparr>status = 200, content = File_data d\<rparr>)"

definition internal_error :: "world \<Rightarrow> reply \<times> world" where
  "internal_error w =
     (\<lparr>status = 500, content = Error_json ''Internal server error''\<rparr>,
      logged (Error_line ''Request error:'' SyntaxError) w)"

definition job_not_found :: reply where
  "job_not_found = \<lparr>status = 404, content = Error_json ''Job not found''\<rparr>"

definition server :: "store \<Rightarrow> instant \<Rightarrow> instant \<Rightarrow> request \<Rightarrow> world \<Rightarrow> reply \<times> world" where
  "server s now1 now2 req w =
     (if req_method req = ''OPTIONS'' then (\<lparr>status = 200, content = Empty\<rparr>, w)
      else if pathname req = ''/'' \<or> pathname req = ''/index.html'' then (serveStaticFile w, w)
      else if req_method req = ''GET'' \<and> pathname req = ''/api/jobs'' then
        (case getAllJobs s w of (jobs, w') \<Rightarrow> (\<lparr>status = 200, content = Jobs_json jobs\<rparr>, w'))
      else if req_method req = ''GET'' \<and> startsWith (pathname req) ''/api/jobs/'' then
        (case getJob s (jobIdOf (pathname req)) w of
           (Some job, w') \<Rightarrow> (\<lparr>status = 200, content = Job_json job\<rparr>, w')
         | (None, w') \<Rightarrow> (job_not_found, w'))
      else if req_method req = ''POST'' \<and> pathname req = ''/api/jobs'' then
        (case payload req of
           None \<Rightarrow> internal_error w
         | Some job \<Rightarrow>
             (case createJob s now1 now2 job w of
                (Some created, w') \<Rightarrow> (\<lparr>status = 201, content = Job_json created\<rparr>, w')
              | (None, w') \<Rightarrow> (\<lparr>status = 201, content = Null_json\<rparr>, w')))
      else if req_method req = ''PUT'' \<and> startsWith (pathname req) ''/api/jobs/'' then
        (case payload req of
           None \<Rightarrow> internal_error w
         | Some job \<Rightarrow>
             (case updateJob s now1 (jobIdOf (pathname req)) job w of
                (Some updated, w') \<Rightarrow> (\<lparr>status = 200, content = Job_json updated\<rparr>, w')
              | (None, w') \<Rightarrow> (job_not_found, w')))
      else if req_method req = ''DELETE'' \<and> startsWith (pathname req) ''/api/jobs/'' then
        (case deleteJob s (jobIdOf (pathname req)) w of
           (ok, w') \<Rightarrow> (\<lparr>status = 200, content = Success_json\<rparr>, w'))
      else if req_method req = ''POST'' \<and> pathname req = ''/api/cleanup'' then
        (\<lparr>status = 200, content = Success_json\<rparr>, cleanupExpiredJobs s now1 w)
      else (\<lparr>status = 404, content = Error_json ''Not found''\<rparr>, w))"

section \<open>What the specification says, and the examples\<close>

text \<open>The expiration formula in the specification's words: the sum of the segment
  durations and of the delay minutes, a missing number counting as 0, plus the grace
  period of 1440 minutes; \<open>expiry\<close> is the instant that many minutes after \<open>startTime\<close>.
  The sums are those of the rationals, over the elements that are objects.\<close>

definition durationOrZero :: "segment \<Rightarrow> rat" where
  "durationOrZero s = (case duration s of Val (Finite q) \<Rightarrow> q | _ \<Rightarrow> 0)"

definition minutesOrZero :: "delay \<Rightarrow> rat" where
  "minutesOrZero d = (case minutes d of Val (Finite q) \<Rightarrow> q | _ \<Rightarrow> 0)"

definition elems :: "'a list js \<Rightarrow> 'a list" where
  "elems xs = (case xs of Val l \<Rightarrow> l | _ \<Rightarrow> [])"

fun objects :: "'a option list \<Rightarrow> 'a list" where
  "objects [] = []"
| "objects (None # xs) = objects xs"
| "objects (Some x # xs) = x # objects xs"

definition plannedMinutes :: "job \<Rightarrow> rat" where
  "plannedMinutes job =
     sum_list (map durationOrZero (objects (elems (segments job))))
     + sum_list (map minutesOrZero (objects (elems (delays job)))) + 1440"

definition expiry :: "job \<Rightarrow> instant \<Rightarrow> rat" where
  "expiry job st = of_int st + plannedMinutes job * 60000"

text \<open>An element of \<^verbatim>\<open>segments\<close> or of \<^verbatim>\<open>delays\<close> is \<^verbatim>\<open>null\<close>.\<close>

definition hasNull :: "job \<Rightarrow> bool" where
  "hasNull job = (None \<in> set (elems (segments job)) \<or> None \<in> set (elems (delays job)))"

text \<open>
  When the doubles compute the formula exactly. A rational is representable when rounding leaves
  it as it is. The computation is exact when no number is an infinity and every result of
  a \<^verbatim>\<open>+\<close> or a \<^verbatim>\<open>*\<close> on the way is representable: the running totals of the two loops,
  the sum of the totals, that sum with the 1440 minutes, the milliseconds, and the
  instant.
\<close>

definition representable :: "rat \<Rightarrow> bool" where
  "representable q = (roundToDouble q = Finite q)"

fun exactTotals :: "rat \<Rightarrow> rat list \<Rightarrow> bool" where
  "exactTotals a [] = True"
| "exactTotals a (x # xs) = (representable (a + x) \<and> exactTotals (a + x) xs)"

fun finiteNumber :: "number js \<Rightarrow> bool" where
  "finiteNumber (Val Infinity) = False"
| "finiteNumber (Val NegInfinity) = False"
| "finiteNumber x = True"

definition exact :: "job \<Rightarrow> instant \<Rightarrow> bool" where
  "exact job st =
     (let ss = objects (elems (segments job));
          ds = objects (elems (delays job));
          totalMinutes = sum_list (map durationOrZero ss);
          totalDelays = sum_list (map minutesOrZero ds)
      in list_all (\<lambda>s. finiteNumber (duration s)) ss \<and>
         list_all (\<lambda>d. finiteNumber (minutes d)) ds \<and>
         exactTotals 0 (map durationOrZero ss) \<and>
         exactTotals 0 (map minutesOrZero ds) \<and>
         representable (totalMinutes + totalDelays) \<and>
         representable (totalMinutes + totalDelays + 1440) \<and>
         representable ((totalMinutes + totalDelays + 1440) * 60000) \<and>
         representable (of_int st + (totalMinutes + totalDelays + 1440) * 60000))"

text \<open>The numbers of the data model: a duration and the minutes of a delay are missing
  or a non-negative integer.\<close>

definition whole :: "rat \<Rightarrow> bool" where
  "whole q = (0 \<le> q \<and> of_int \<lfloor>q\<rfloor> = q)"

fun naturalNumber :: "number js \<Rightarrow> bool" where
  "naturalNumber (Val (Finite q)) = whole q"
| "naturalNumber (Val x) = False"
| "naturalNumber x = True"

definition natural :: "job \<Rightarrow> bool" where
  "natural job =
     (list_all (\<lambda>s. naturalNumber (duration s)) (objects (elems (segments job))) \<and>
      list_all (\<lambda>d. naturalNumber (minutes d)) (objects (elems (delays job))))"

text \<open>The job of the specification's example:
  \<^verbatim>\<open>{id:"J1", startTime:"2024-01-01T00:00:00Z", segments:[{duration:60},{duration:30}], delays:[{minutes:15}]}\<close>.\<close>

definition example_job :: job where
  "example_job =
     \<lparr> id_job = Val ''J1'', name = Undefined, startTime = Val (utc 2024 1 1 0 0 0),
       segments = Val [Some \<lparr>duration = Val (Finite 60)\<rparr>, Some \<lparr>duration = Val (Finite 30)\<rparr>],
       delays = Val [Some \<lparr>minutes = Val (Finite 15)\<rparr>], nextSegmentId = Undefined,
       createdAt = Undefined, lastUpdated = Undefined, expiresAt = Undefined \<rparr>"




text \<open>A row whose \<^verbatim>\<open>expires_at\<close> is not null and strictly before \<open>now\<close>.\<close>

definition expired :: "instant \<Rightarrow> row \<Rightarrow> bool" where
  "expired now r = (case expires_at r of Val e \<Rightarrow> e < now | _ \<Rightarrow> False)"

text \<open>An object that maps job ids to jobs: no key twice, and every key the id of its
  job (as a property key).\<close>

definition keyed :: "(string \<times> job) list \<Rightarrow> bool" where
  "keyed jobs = (distinct (map fst jobs) \<and> list_all (\<lambda>(k, j). k = property_key (id_job j)) jobs)"

definition empty_world :: world where
  "empty_world = \<lparr>table = [], console = [], html = None\<rparr>"

text \<open>The row of the example job as the store holds it after a \<open>createJob\<close> whose
  clock read 1704000000000 and 1704000000001 (2023-12-31T05:20:00Z, and a millisecond
  later); the body of that request; and a world whose table holds that row.\<close>

definition stored_example :: row where
  "stored_example =
     \<lparr> job_id = Val ''J1'', name_col = Null, start_time = Val 1704067200000,
       segments_col = Val [Some \<lparr>duration = Val (Finite 60)\<rparr>, Some \<lparr>duration = Val (Finite 30)\<rparr>],
       delays_col = Val [Some \<lparr>minutes = Val (Finite 15)\<rparr>], next_segment_id = Val (Finite 6),
       created_at = Val 1704000000000, last_updated = Val 1704000000001,
       expires_at = Val 1704159900000 \<rparr>"

definition example_body :: row where
  "example_body = stored_example\<lparr>name_col := Undefined\<rparr>"

definition example_world :: world where
  "example_world = \<lparr>table = [stored_example], console = [], html = None\<rparr>"

text \<open>The requests \<^verbatim>\<open>POST /api/jobs\<close> with a job as body, and \<^verbatim>\<open>PUT /api/jobs/k\<close> with
  a body that parses.\<close>

definition post_jobs :: "job \<Rightarrow> request" where
  "post_jobs job =
     \<lparr>req_method = ''POST'', pathname = ''/api/jobs'', payload = Some (Json_object job)\<rparr>"


section \<open>Properties\<close>

subsection \<open>The adapter\<close>

lemma supabaseRequest_Up_DELETE:
  "supabaseRequest (service Up) DELETE ps body tbl =
     (Inr (Array (filter (selected ps) tbl)), filter (\<lambda>r. \<not> selected ps r) tbl)"
  by (simp add: supabaseRequest_def service_def postgrest_def settle_def)

lemma supabaseRequest_Up_GET:
  "supabaseRequest (service Up) GET ps body tbl = (Inr (Array (ordered ps (filter (selected ps) tbl))), tbl)"
  by (simp add: supabaseRequest_def service_def postgrest_def settle_def)

lemma supabaseRequest_faults:
  "supabaseRequest (service Unreachable) m ps body tbl = (Inl SocketError, tbl)"
  "supabaseRequest (service (Http_error n)) m ps body tbl = (Inl (SupabaseError (400 + n)), tbl)"
  "supabaseRequest (service (Garbled k)) m ps body tbl = (Inr Not_array, tbl)"
  by (simp_all add: supabaseRequest_def service_def settle_def)

lemma supabaseRequest_rejected:
  "supabaseRequest (service c) m ps body tbl = (Inl e, tbl') \<Longrightarrow> tbl' = tbl"
  by (cases c; cases m)
     (auto simp add: supabaseRequest_def service_def postgrest_def settle_def Let_def
        split: option.splits js.splits if_splits)

text \<open>Whatever the store, the table after a request is the one the store leaves, and the
  promise is settled on its response.\<close>

lemma supabaseRequest_any:
  "snd (supabaseRequest s m ps body tbl) = snd (s m ps body tbl)"
  "fst (supabaseRequest s m ps body tbl) = settle (fst (s m ps body tbl))"
  by (simp_all add: supabaseRequest_def split: prod.splits)

lemma selected_cleanup: "selected [Expires_at_lt now, Expires_at_not_is_null] r = expired now r"
  by (simp add: selected_def expired_def split: js.splits)

lemma selected_job_id: "selected [Job_id_eq k] r = (job_id r = Val k)"
  by (simp add: selected_def)

subsection \<open>Rounding to a double\<close>

lemma bitlen_le: "n < 2 ^ k \<Longrightarrow> bitlen n \<le> k"
proof (induction n arbitrary: k rule: bitlen.induct)
  case (1 n)
  show ?case
  proof (cases "n = 0")
    case True
    then show ?thesis by (simp add: bitlen.simps)
  next
    case False
    with 1(2) obtain j where k: "k = Suc j"
      by (cases k) auto
    with 1(2) have "n div 2 < 2 ^ j"
      by auto
    with 1(1) False have "bitlen (n div 2) \<le> j"
      by blast
    with False k show ?thesis
      by (simp add: bitlen.simps [of n])
  qed
qed



lemma nearestEven_of_int: "nearestEven (of_int k) = k"
  by (simp add: nearestEven_def)

text \<open>An integer of magnitude below \<open>2\<^sup>5\<^sup>3\<close>, scaled by a power of two, is a double.\<close>

lemma roundToDouble_scaled:
  assumes "\<bar>m\<bar> < 2 ^ 53" and "j \<le> 971"
  shows "roundToDouble (of_int (m * 2 ^ j)) = Finite (of_int (m * 2 ^ j))"
proof -
  define P :: nat where "P = 1074"
  define n where "n = m * 2 ^ j"
  define a :: rat where "a = \<bar>of_int n\<bar> * 2 ^ P"
  define e where "e = bitlen (nat \<lfloor>a\<rfloor>) - 53"
  have abs_n: "\<bar>n\<bar> = \<bar>m\<bar> * 2 ^ j"
    by (simp add: n_def abs_mult)
  have a_int: "a = of_int (\<bar>m\<bar> * 2 ^ (j + P))"
    by (simp add: a_def abs_n power_add flip: of_int_abs)
  have fl: "\<lfloor>a\<rfloor> = \<bar>m\<bar> * 2 ^ (j + P)"
    unfolding a_int by (rule floor_of_int)
  have "nat \<bar>m\<bar> < 2 ^ 53"
    using assms(1) by (simp add: nat_less_iff)
  then have "nat \<bar>m\<bar> * 2 ^ (j + P) < 2 ^ 53 * 2 ^ (j + P)"
    by simp
  then have "nat \<lfloor>a\<rfloor> < 2 ^ (53 + (j + P))"
    by (simp add: fl power_add nat_mult_distrib nat_power_eq)
  then have "bitlen (nat \<lfloor>a\<rfloor>) \<le> 53 + (j + P)"
    by (rule bitlen_le)
  then have "e \<le> j + P"
    by (simp add: e_def)
  then obtain d where d: "j + P = e + d"
    using le_Suc_ex by blast
  have s: "a / 2 ^ e = of_int (\<bar>m\<bar> * 2 ^ d)"
    by (simp add: a_int d power_add)
  have "(2::rat) ^ d * 2 ^ e = 2 ^ j * 2 ^ P"
    using d by (simp add: add.commute flip: power_add)
  then have "(of_int \<bar>m\<bar> :: rat) * (2 ^ d * 2 ^ e) / 2 ^ P = of_int \<bar>m\<bar> * 2 ^ j"
    by simp
  then have v: "of_int (nearestEven (a / 2 ^ e)) * 2 ^ e / (2::rat) ^ P = of_int \<bar>n\<bar>"
    unfolding s nearestEven_of_int by (simp add: abs_n mult.assoc)
  have "\<bar>m\<bar> * 2 ^ j < 2 ^ 53 * 2 ^ j"
    using assms(1) by simp
  also have "\<dots> \<le> 2 ^ 53 * (2::int) ^ 971"
    using assms(2) by (intro mult_left_mono power_increasing) simp_all
  also have "\<dots> = 2 ^ 1024"
    by simp
  finally have "\<bar>n\<bar> < 2 ^ 1024"
    by (simp only: abs_n)
  then have "(of_int \<bar>n\<bar> :: rat) < of_int (2 ^ 1024)"
    by (simp only: of_int_less_iff)
  then have small: "\<not> (2::rat) ^ 1024 \<le> of_int \<bar>n\<bar>"
    by simp
  have "roundToDouble (of_int n) =
      (if (2::rat) ^ 1024 \<le> of_int \<bar>n\<bar> then (if (of_int n :: rat) < 0 then NegInfinity else Infinity)
       else Finite (if (of_int n :: rat) < 0 then - of_int \<bar>n\<bar> else of_int \<bar>n\<bar>))"
    unfolding roundToDouble_def Let_def P_def [symmetric] a_def [symmetric] e_def [symmetric] v ..
  also have "\<dots> = Finite (of_int n)"
    unfolding if_not_P [OF small] by (simp add: abs_if)
  finally show ?thesis
    by (simp only: n_def)
qed


subsection \<open>The expiration computation\<close>

lemma representable_int: "\<bar>n\<bar> < 2 ^ 53 \<Longrightarrow> representable (of_int n)"
  using roundToDouble_scaled [of n 0] by (simp add: representable_def)


lemma or_number_duration:
  "finiteNumber (duration s) \<Longrightarrow> or_number (duration s) (Finite 0) = Finite (durationOrZero s)"
  by (cases "duration s" rule: finiteNumber.cases) (auto simp add: durationOrZero_def)

lemma or_number_minutes:
  "finiteNumber (minutes d) \<Longrightarrow> or_number (minutes d) (Finite 0) = Finite (minutesOrZero d)"
  by (cases "minutes d" rule: finiteNumber.cases) (auto simp add: minutesOrZero_def)

lemma forEach_duration_exact:
  "list_all (\<lambda>s. finiteNumber (duration s)) ss \<Longrightarrow> exactTotals a (map durationOrZero ss) \<Longrightarrow>
   forEach_duration (map Some ss) (Finite a) = Inr (Finite (a + sum_list (map durationOrZero ss)))"
  by (induction ss arbitrary: a) (simp_all add: or_number_duration representable_def add.assoc)

lemma reduce_minutes_exact:
  "list_all (\<lambda>d. finiteNumber (minutes d)) ds \<Longrightarrow> exactTotals a (map minutesOrZero ds) \<Longrightarrow>
   reduce_minutes (map Some ds) (Finite a) = Inr (Finite (a + sum_list (map minutesOrZero ds)))"
  by (induction ds arbitrary: a) (simp_all add: or_number_minutes representable_def add.assoc)







lemma map_Some_objects: "None \<notin> set xs \<Longrightarrow> map Some (objects xs) = xs"
  by (induction xs rule: objects.induct) simp_all








lemma segmentMinutes_exact:
  assumes "None \<notin> set (elems ss)"
    and "list_all (\<lambda>s. finiteNumber (duration s)) (objects (elems ss))"
    and "exactTotals 0 (map durationOrZero (objects (elems ss)))"
  shows "segmentMinutes ss = Inr (Finite (sum_list (map durationOrZero (objects (elems ss)))))"
proof (cases ss)
  case (Val xs)
  with assms(1) have xs: "map Some (objects xs) = xs"
    by (simp add: elems_def map_Some_objects)
  from Val assms(2,3) have "forEach_duration (map Some (objects xs)) (Finite 0) =
      Inr (Finite (0 + sum_list (map durationOrZero (objects xs))))"
    by (intro forEach_duration_exact) (simp_all add: elems_def)
  with Val xs show ?thesis
    by (simp add: segmentMinutes_def elems_def)
qed (simp_all add: segmentMinutes_def elems_def)

lemma delayMinutes_exact:
  assumes "None \<notin> set (elems ds)"
    and "list_all (\<lambda>d. finiteNumber (minutes d)) (objects (elems ds))"
    and "exactTotals 0 (map minutesOrZero (objects (elems ds)))"
  shows "delayMinutes ds = Inr (Finite (sum_list (map minutesOrZero (objects (elems ds)))))"
proof (cases ds)
  case (Val xs)
  with assms(1) have xs: "map Some (objects xs) = xs"
    by (simp add: elems_def map_Some_objects)
  from Val assms(2,3) have "reduce_minutes (map Some (objects xs)) (Finite 0) =
      Inr (Finite (0 + sum_list (map minutesOrZero (objects xs))))"
    by (intro reduce_minutes_exact) (simp_all add: elems_def)
  with Val xs show ?thesis
    by (simp add: delayMinutes_def elems_def)
qed (simp_all add: delayMinutes_def elems_def)



lemma trunc_of_int: "trunc (of_int k) = k"
  by (simp add: trunc_def)

lemma calculateExpiresAt_exact:
  assumes "startTime job = Val st" and "\<not> hasNull job" and "exact job st" and "inRange (of_int st)"
  shows "calculateExpiresAt job =
     (if inRange (expiry job st) then Inr (Some (trunc (expiry job st))) else Inl RangeError)"
proof -
  define totalMinutes where "totalMinutes = sum_list (map durationOrZero (objects (elems (segments job))))"
  define totalDelays where "totalDelays = sum_list (map minutesOrZero (objects (elems (delays job))))"
  from assms(2) have nn: "None \<notin> set (elems (segments job))" "None \<notin> set (elems (delays job))"
    by (simp_all add: hasNull_def)
  from assms(3) have ex:
    "list_all (\<lambda>s. finiteNumber (duration s)) (objects (elems (segments job)))"
    "list_all (\<lambda>d. finiteNumber (minutes d)) (objects (elems (delays job)))"
    "exactTotals 0 (map durationOrZero (objects (elems (segments job))))"
    "exactTotals 0 (map minutesOrZero (objects (elems (delays job))))"
    "representable (totalMinutes + totalDelays)"
    "representable (totalMinutes + totalDelays + 1440)"
    "representable ((totalMinutes + totalDelays + 1440) * 60000)"
    "representable (of_int st + (totalMinutes + totalDelays + 1440) * 60000)"
    by (simp_all add: exact_def Let_def totalMinutes_def totalDelays_def)
  have tm: "segmentMinutes (segments job) = Inr (Finite totalMinutes)"
    unfolding totalMinutes_def using nn(1) ex(1) ex(3) by (rule segmentMinutes_exact)
  have td: "delayMinutes (delays job) = Inr (Finite totalDelays)"
    unfolding totalDelays_def using nn(2) ex(2) ex(4) by (rule delayMinutes_exact)
  show ?thesis
    using assms(1) assms(4) ex(5-8)
    by (simp add: calculateExpiresAt_def tm td representable_def parseDate_def getTime_def
        expiry_def plannedMinutes_def totalMinutes_def totalDelays_def newDate_def toISOString_def)
qed


lemma calculateExpiresAt_depends:
  "startTime job' = startTime job \<Longrightarrow> segments job' = segments job \<Longrightarrow> delays job' = delays job \<Longrightarrow>
   calculateExpiresAt job' = calculateExpiresAt job"
  by (simp add: calculateExpiresAt_def split: sum.splits)

text \<open>The numbers of the data model are computed exactly as long as the instants are
  within the range of a \<^verbatim>\<open>Date\<close>.\<close>

lemma naturalNumber_finite: "naturalNumber x \<Longrightarrow> finiteNumber x"
  by (cases x rule: naturalNumber.cases) simp_all

lemma naturalNumber_duration: "naturalNumber (duration s) \<Longrightarrow> whole (durationOrZero s)"
  by (cases "duration s" rule: naturalNumber.cases) (simp_all add: durationOrZero_def whole_def)

lemma naturalNumber_minutes: "naturalNumber (minutes d) \<Longrightarrow> whole (minutesOrZero d)"
  by (cases "minutes d" rule: naturalNumber.cases) (simp_all add: minutesOrZero_def whole_def)

lemma whole_int: "whole q \<Longrightarrow> \<exists>k. 0 \<le> k \<and> q = of_int k"
proof -
  assume "whole q"
  then have "0 \<le> \<lfloor>q\<rfloor> \<and> q = of_int \<lfloor>q\<rfloor>"
    unfolding whole_def by (metis zero_le_floor)
  then show ?thesis ..
qed

lemma whole_of_int: "0 \<le> k \<Longrightarrow> whole (of_int k)"
  by (simp add: whole_def)

lemma whole_sum_list: "list_all whole qs \<Longrightarrow> whole (sum_list qs)"
proof (induction qs)
  case Nil
  then show ?case by (simp add: whole_def)
next
  case (Cons q qs)
  then obtain k j where "0 \<le> k" "q = of_int k" "0 \<le> j" "sum_list qs = of_int j"
    using whole_int [of q] whole_int [of "sum_list qs"] by auto
  then have "sum_list (q # qs) = of_int (k + j)" "0 \<le> k + j"
    by simp_all
  then show ?case
    by (simp only: whole_of_int)
qed

lemma exactTotals_whole:
  "list_all whole qs \<Longrightarrow> 0 \<le> a \<Longrightarrow> of_int a + sum_list qs < 2 ^ 53 \<Longrightarrow> exactTotals (of_int a) qs"
proof (induction qs arbitrary: a)
  case Nil
  then show ?case by simp
next
  case (Cons q qs)
  from Cons.prems(1) obtain k where k: "0 \<le> k" "q = of_int k"
    using whole_int [of q] by auto
  from Cons.prems(1) obtain j where j: "0 \<le> j" "sum_list qs = of_int j"
    using whole_int [of "sum_list qs"] whole_sum_list [of qs] by auto
  from Cons.prems(3) have "(of_int (a + k + j) :: rat) < of_int (2 ^ 53)"
    by (simp add: k j)
  then have bound: "a + k + j < 2 ^ 53"
    by (simp only: of_int_less_iff)
  with Cons.prems(2) k(1) j(1) have "\<bar>a + k\<bar> < 2 ^ 53"
    by simp
  then have "representable (of_int (a + k))"
    by (rule representable_int)
  moreover have "exactTotals (of_int (a + k)) qs"
  proof (rule Cons.IH)
    show "list_all whole qs"
      using Cons.prems(1) by simp
    show "0 \<le> a + k"
      using Cons.prems(2) k(1) by simp
    show "(of_int (a + k) :: rat) + sum_list qs < 2 ^ 53"
      using Cons.prems(3) by (simp add: k add.assoc)
  qed
  ultimately show ?case
    by (simp add: k)
qed

lemma representable_minutes:
  assumes "0 \<le> x" and "x \<le> 288000000000"
  shows "representable (of_int x * 60000)"
proof -
  have "\<bar>x * 1875\<bar> < 2 ^ 53"
    using assms by simp
  then have "roundToDouble (of_int (x * 1875 * 2 ^ 5)) = Finite (of_int (x * 1875 * 2 ^ 5))"
    by (rule roundToDouble_scaled) simp
  moreover have "(of_int (x * 1875 * 2 ^ 5) :: rat) = of_int x * 60000"
    by simp
  ultimately show ?thesis
    by (simp only: representable_def)
qed

lemma natural_exact:
  assumes "natural job" and "inRange (of_int st)" and "inRange (expiry job st)"
  shows "exact job st \<and> expiry job st = of_int (st + \<lfloor>plannedMinutes job\<rfloor> * 60000)"
proof -
  define ss where "ss = objects (elems (segments job))"
  define ds where "ds = objects (elems (delays job))"
  from assms(1) have nat_ss: "list_all (\<lambda>s. naturalNumber (duration s)) ss"
    and nat_ds: "list_all (\<lambda>d. naturalNumber (minutes d)) ds"
    by (simp_all add: natural_def ss_def ds_def)
  have fin: "list_all (\<lambda>s. finiteNumber (duration s)) ss" "list_all (\<lambda>d. finiteNumber (minutes d)) ds"
    using nat_ss nat_ds by (simp_all add: list_all_iff naturalNumber_finite)
  have wh: "list_all whole (map durationOrZero ss)" "list_all whole (map minutesOrZero ds)"
    using nat_ss nat_ds by (simp_all add: list_all_iff naturalNumber_duration naturalNumber_minutes)
  obtain d where d: "0 \<le> d" "sum_list (map durationOrZero ss) = of_int d"
    using whole_int [OF whole_sum_list [OF wh(1)]] by auto
  obtain m where m: "0 \<le> m" "sum_list (map minutesOrZero ds) = of_int m"
    using whole_int [OF whole_sum_list [OF wh(2)]] by auto
  have planned: "plannedMinutes job = of_int (d + m + 1440)"
    by (simp add: plannedMinutes_def d m flip: ss_def ds_def)
  then have result: "expiry job st = of_int (st + (d + m + 1440) * 60000)"
    by (simp add: expiry_def)
  from assms(2) have "\<bar>st\<bar> \<le> maxTime"
    unfolding inRange_def by (metis of_int_abs of_int_le_iff)
  moreover from assms(3) have "\<bar>st + (d + m + 1440) * 60000\<bar> \<le> maxTime"
    unfolding inRange_def result by (metis of_int_abs of_int_le_iff)
  ultimately have range: "\<bar>st + (d + m + 1440) * 60000\<bar> < 2 ^ 53" and x: "d + m + 1440 \<le> 288000000000"
    by (simp_all add: maxTime_def)
  have "exactTotals (of_int 0) (map durationOrZero ss)"
    using wh(1) x m(1) by (intro exactTotals_whole) (simp_all add: d)
  then have e1: "exactTotals 0 (map durationOrZero ss)"
    by simp
  have "exactTotals (of_int 0) (map minutesOrZero ds)"
    using wh(2) x d(1) by (intro exactTotals_whole) (simp_all add: m)
  then have e2: "exactTotals 0 (map minutesOrZero ds)"
    by simp
  have e3: "representable (of_int d + of_int m)"
    using representable_int [of "d + m"] x d(1) m(1) by simp
  have e4: "representable (of_int d + of_int m + 1440)"
    using representable_int [of "d + m + 1440"] x d(1) m(1) by simp
  have e5: "representable ((of_int d + of_int m + 1440) * 60000)"
    using representable_minutes [of "d + m + 1440"] x d(1) m(1) by simp
  have e6: "representable (of_int st + (of_int d + of_int m + 1440) * 60000)"
    using representable_int [OF range] by simp
  from e1 e2 e3 e4 e5 e6
  have "exact job st"
    using fin by (simp add: exact_def Let_def d m flip: ss_def ds_def)
  with result planned show ?thesis
    by simp
qed

lemma calculateExpiresAt_natural:
  assumes "startTime job = Val st" and "\<not> hasNull job" and "natural job"
    and "inRange (of_int st)" and "inRange (expiry job st)"
  shows "calculateExpiresAt job = Inr (Some (st + \<lfloor>plannedMinutes job\<rfloor> * 60000))"
proof -
  from assms(3-5) have x: "exact job st" and e: "expiry job st = of_int (st + \<lfloor>plannedMinutes job\<rfloor> * 60000)"
    using natural_exact by blast+
  have "calculateExpiresAt job = Inr (Some (trunc (expiry job st)))"
    using calculateExpiresAt_exact [OF assms(1) assms(2) x assms(4)] assms(5) by simp
  then show ?thesis
    by (simp only: e trunc_of_int)
qed



lemma utc_examples:
  "utc 1970 1 1 0 0 0 = 0"
  "utc 2024 1 1 0 0 0 = 1704067200000"
  "utc 2024 1 2 1 45 0 = 1704159900000"
  "utc 2024 1 2 2 45 0 = 1704163500000"
  by (simp_all add: utc_def daysFromCivil_def)

lemma example_job_start: "startTime example_job = Val 1704067200000"
  by (simp add: example_job_def utc_examples)



lemma example_job_minutes: "plannedMinutes example_job = 1545"
  by (simp add: example_job_def plannedMinutes_def elems_def durationOrZero_def minutesOrZero_def)



lemma example_job_natural: "natural example_job" "\<not> hasNull example_job"
  by (simp_all add: example_job_def natural_def hasNull_def elems_def whole_def)


lemma example_job_expiry: "expiry example_job 1704067200000 = 1704159900000"
  by (simp add: expiry_def example_job_minutes)



lemma example_job_expires: "calculateExpiresAt example_job = Inr (Some 1704159900000)"
  using calculateExpiresAt_natural [OF example_job_start example_job_natural(2) example_job_natural(1)]
  by (simp add: example_job_expiry example_job_minutes inRange_def maxTime_def)














subsection \<open>The rows the repository builds\<close>

lemma supabaseRequest_Up_POST:
  "supabaseRequest (service Up) POST ps (Some b) tbl =
     (case job_id b of
        Val k \<Rightarrow>
          if Val k \<in> set (map job_id tbl) then (Inl (SupabaseError 409), tbl)
          else (Inr (Array [patch_row b null_row]), tbl @ [patch_row b null_row])
      | _ \<Rightarrow> (Inl (SupabaseError 400), tbl))"
  by (simp add: supabaseRequest_def service_def postgrest_def settle_def split: js.splits)

lemma supabaseRequest_Up_PATCH:
  "job_id b = Undefined \<Longrightarrow>
   supabaseRequest (service Up) PATCH ps (Some b) tbl =
     (Inr (Array (filter (selected ps) (map (\<lambda>r. if selected ps r then patch_row b r else r) tbl))),
      map (\<lambda>r. if selected ps r then patch_row b r else r) tbl)"
  by (simp add: supabaseRequest_def service_def postgrest_def settle_def Let_def)

lemma calculateExpiresAt_expiresAt_ignored:
  "calculateExpiresAt (job\<lparr>expiresAt := x\<rparr>) = calculateExpiresAt job"
  by (rule calculateExpiresAt_depends) simp_all

lemma createRow_expiresAt_ignored: "createRow now1 now2 (job\<lparr>expiresAt := x\<rparr>) = createRow now1 now2 job"
  by (simp add: createRow_def calculateExpiresAt_expiresAt_ignored split: sum.splits)

lemma updateRow_expiresAt_ignored: "updateRow now (job\<lparr>expiresAt := x\<rparr>) = updateRow now job"
  by (simp add: updateRow_def calculateExpiresAt_expiresAt_ignored split: sum.splits)

lemma createRow_columns:
  "createRow now1 now2 job = Inr row \<Longrightarrow>
   \<exists>e. calculateExpiresAt job = Inr e \<and> expires_at row = nullable e \<and>
       created_at row = Val (or_value (createdAt job) now1) \<and> last_updated row = Val now2 \<and>
       job_id row = id_job job"
  by (auto simp add: createRow_def split: sum.splits)

lemma updateRow_columns:
  "updateRow now job = Inr row \<Longrightarrow>
   \<exists>e. calculateExpiresAt job = Inr e \<and> expires_at row = nullable e \<and>
       job_id row = Undefined \<and> created_at row = Undefined \<and> last_updated row = Val now"
  by (auto simp add: updateRow_def split: sum.splits)

lemma createRow_error: "createRow now1 now2 job = Inl err \<Longrightarrow> calculateExpiresAt job = Inl err"
  by (auto simp add: createRow_def split: sum.splits)

lemma updateRow_error: "updateRow now job = Inl err \<Longrightarrow> calculateExpiresAt job = Inl err"
  by (auto simp add: updateRow_def split: sum.splits)

lemma written_nullable: "written (nullable e) old = nullable e"
  by (cases e) simp_all

lemma patch_row_columns:
  "job_id (patch_row b r) = written (job_id b) (job_id r)"
  "created_at (patch_row b r) = written (created_at b) (created_at r)"
  "last_updated (patch_row b r) = written (last_updated b) (last_updated r)"
  "expires_at (patch_row b r) = written (expires_at b) (expires_at r)"
  by (simp_all add: patch_row_def)

text \<open>Whatever the store, \<open>createJob\<close> and \<open>updateJob\<close> make one request, with the row
  they built as its body, or none when no row was built: the table they leave is the one
  the store leaves after that request.\<close>

lemma createJob_table_any:
  "table (snd (createJob s now1 now2 (Json_object job) w)) =
     (case createRow now1 now2 job of
        Inl err \<Rightarrow> table w
      | Inr row \<Rightarrow> snd (s POST [] (Some row) (table w)))"
proof (cases "createRow now1 now2 job")
  case (Inl err)
  then show ?thesis by (simp add: createJob_def logged_def)
next
  case (Inr row)
  then show ?thesis
    using supabaseRequest_any(1) [of s POST "[]" "Some row" "table w"]
    by (cases "supabaseRequest s POST [] (Some row) (table w)")
       (auto simp add: createJob_def logged_def split: sum.splits)
qed

lemma updateJob_table_any:
  "table (snd (updateJob s now k (Json_object job) w)) =
     (case updateRow now job of
        Inl err \<Rightarrow> table w
      | Inr row \<Rightarrow> snd (s PATCH [Job_id_eq k] (Some row) (table w)))"
proof (cases "updateRow now job")
  case (Inl err)
  then show ?thesis by (simp add: updateJob_def logged_def)
next
  case (Inr row)
  then show ?thesis
    using supabaseRequest_any(1) [of s PATCH "[Job_id_eq k]" "Some row" "table w"]
    by (cases "supabaseRequest s PATCH [Job_id_eq k] (Some row) (table w)")
       (auto simp add: updateJob_def logged_def split: sum.splits)
qed

text \<open>The table after \<open>createJob\<close> and \<open>updateJob\<close> on the store modelled.\<close>

lemma createJob_table:
  "table (snd (createJob (service c) now1 now2 (Json_object job) w)) =
     (case createRow now1 now2 job of
        Inl err \<Rightarrow> table w
      | Inr row \<Rightarrow>
          (case job_id row of
             Val k \<Rightarrow>
               if c = Up \<and> Val k \<notin> set (map job_id (table w))
               then table w @ [patch_row row null_row] else table w
           | _ \<Rightarrow> table w))"
  by (cases c)
     (auto simp add: createJob_def logged_def supabaseRequest_Up_POST supabaseRequest_faults
        split: sum.splits js.splits)

lemma updateJob_table:
  "table (snd (updateJob (service c) now k (Json_object job) w)) =
     (case updateRow now job of
        Inl err \<Rightarrow> table w
      | Inr row \<Rightarrow>
          if c = Up then map (\<lambda>r. if job_id r = Val k then patch_row row r else r) (table w)
          else table w)"
proof (cases "updateRow now job")
  case (Inl err)
  then show ?thesis by (simp add: updateJob_def logged_def)
next
  case (Inr row)
  then have "job_id row = Undefined"
    by (auto dest: updateRow_columns)
  with Inr show ?thesis
    by (cases c)
       (simp_all add: updateJob_def logged_def supabaseRequest_Up_PATCH supabaseRequest_faults
          selected_job_id)
qed

lemma createJob_null:
  "createJob s now1 now2 Json_null w = (None, logged (Error_line ''createJob error:'' TypeError) w)"
  by (simp add: createJob_def)

lemma updateJob_null:
  "updateJob s now k Json_null w = (None, logged (Error_line ''updateJob error:'' TypeError) w)"
  by (simp add: updateJob_def)

lemma createJob_world_expiresAt:
  "snd (createJob s now1 now2 (Json_object (job\<lparr>expiresAt := x\<rparr>)) w) = snd (createJob s now1 now2 (Json_object job) w)"
  by (simp add: createJob_def createRow_expiresAt_ignored split: sum.splits prod.splits)

lemma updateJob_world_expiresAt:
  "snd (updateJob s now k (Json_object (job\<lparr>expiresAt := x\<rparr>)) w) = snd (updateJob s now k (Json_object job) w)"
  by (simp add: updateJob_def updateRow_expiresAt_ignored split: sum.splits prod.splits)

lemma shorter_job_expires:
  "calculateExpiresAt (example_job\<lparr>delays := Null\<rparr>) = Inr (Some 1704159000000)"
proof -
  have start: "startTime (example_job\<lparr>delays := Null\<rparr>) = Val 1704067200000"
    by (simp add: example_job_start)
  have data: "\<not> hasNull (example_job\<lparr>delays := Null\<rparr>)" "natural (example_job\<lparr>delays := Null\<rparr>)"
    by (simp_all add: example_job_def natural_def hasNull_def elems_def whole_def)
  have planned: "plannedMinutes (example_job\<lparr>delays := Null\<rparr>) = 1530"
    by (simp add: example_job_def plannedMinutes_def elems_def durationOrZero_def)
  show ?thesis
    using calculateExpiresAt_natural [OF start data]
    by (simp add: expiry_def planned inRange_def maxTime_def)
qed

lemma example_createRow:
  "createRow 1704000000000 1704000000001 example_job = Inr example_body"
  by (simp add: createRow_def example_job_expires)
     (simp add: example_job_def example_body_def stored_example_def utc_examples)

lemma example_createJob:
  "createJob (service Up) 1704000000000 1704000000001 (Json_object example_job) empty_world = (Some example_job, example_world)"
  by (simp add: createJob_def example_createRow supabaseRequest_Up_POST)
     (simp add: example_body_def stored_example_def empty_world_def example_world_def
        patch_row_def null_row_def)

subsection \<open>The purge\<close>

lemma cleanup_Up: "table (cleanupExpiredJobs (service Up) now w) = filter (\<lambda>r. \<not> expired now r) (table w)"
  by (simp add: cleanupExpiredJobs_def supabaseRequest_Up_DELETE selected_cleanup logged_def)

lemma cleanup_fault: "c \<noteq> Up \<Longrightarrow> table (cleanupExpiredJobs (service c) now w) = table w"
  by (cases c) (simp_all add: cleanupExpiredJobs_def supabaseRequest_faults logged_def)

text \<open>A second purge at another reference time removes what expired in between.\<close>

lemma cleanup_twice:
  "table (cleanupExpiredJobs (service Up) now2 (cleanupExpiredJobs (service Up) now w)) =
     filter (\<lambda>r. \<not> expired (max now now2) r) (table w)"
  by (auto simp add: cleanup_Up expired_def intro!: filter_cong split: js.splits)

text \<open>
  Claim C2, as the code has it. A purge at reference time \<open>now\<close> that the store carries out
  removes from the table exactly the rows whose \<^verbatim>\<open>expires_at\<close> is not null and strictly
  before \<open>now\<close>, and keeps every other row as it is and where it is. Every run reads the
  clock: a second purge, at reference time \<open>now2\<close> and with no write in between, removes
  nothing when no row has expired in between (no row of the table is expired at \<open>now2\<close>
  that was not at \<open>now\<close>), whatever the condition of the store; when the store carries
  the second purge out, it removes nothing in that case only. So it is when the second
  purge runs at the reference time of the first. A purge that meets a store in a fault
  removes nothing (the error is logged). The row of the example, which expires at
  1704159900000, stays when the purge runs at that instant and goes when it runs a
  millisecond later.
\<close>

theorem cleanupExpiredJobs_purges:
  "table (cleanupExpiredJobs (service Up) now w) = filter (\<lambda>r. \<not> expired now r) (table w) \<and>
   set (table w) - set (table (cleanupExpiredJobs (service Up) now w)) = {r \<in> set (table w). expired now r} \<and>
   ((\<forall>r \<in> set (table w). expired now2 r \<longrightarrow> expired now r) \<longrightarrow>
      table (cleanupExpiredJobs (service c) now2 (cleanupExpiredJobs (service Up) now w)) =
        table (cleanupExpiredJobs (service Up) now w)) \<and>
   (table (cleanupExpiredJobs (service Up) now2 (cleanupExpiredJobs (service Up) now w)) =
      table (cleanupExpiredJobs (service Up) now w) \<longleftrightarrow>
    (\<forall>r \<in> set (table w). expired now2 r \<longrightarrow> expired now r)) \<and>
   table (cleanupExpiredJobs (service c) now (cleanupExpiredJobs (service Up) now w)) = table (cleanupExpiredJobs (service Up) now w) \<and>
   table (cleanupExpiredJobs (service Unreachable) now w) = table w \<and>
   table (cleanupExpiredJobs (service (Http_error n)) now w) = table w \<and>
   table (cleanupExpiredJobs (service (Garbled k)) now w) = table w \<and>
   table (cleanupExpiredJobs (service Up) 1704159900000 example_world) = [stored_example] \<and>
   table (cleanupExpiredJobs (service Up) 1704159900001 example_world) = []"
proof (intro conjI)
  show "table (cleanupExpiredJobs (service Up) now w) = filter (\<lambda>r. \<not> expired now r) (table w)"
    by (rule cleanup_Up)
  show "table (cleanupExpiredJobs (service Up) 1704159900000 example_world) = [stored_example]"
    by (simp add: cleanup_Up example_world_def expired_def) (simp add: stored_example_def)
  show "table (cleanupExpiredJobs (service Up) 1704159900001 example_world) = []"
    by (simp add: cleanup_Up example_world_def expired_def) (simp add: stored_example_def)
  show "set (table w) - set (table (cleanupExpiredJobs (service Up) now w)) = {r \<in> set (table w). expired now r}"
    by (auto simp add: cleanup_Up)
  show again: "table (cleanupExpiredJobs (service Up) now2 (cleanupExpiredJobs (service Up) now w)) =
      table (cleanupExpiredJobs (service Up) now w) \<longleftrightarrow>
    (\<forall>r \<in> set (table w). expired now2 r \<longrightarrow> expired now r)" for now2
  proof -
    have "filter (\<lambda>r. \<not> expired now2 r) (filter (\<lambda>r. \<not> expired now r) (table w)) =
        filter (\<lambda>r. \<not> expired now r) (table w) \<longleftrightarrow>
      (\<forall>r \<in> set (filter (\<lambda>r. \<not> expired now r) (table w)). \<not> expired now2 r)"
      by (rule filter_id_conv)
    also have "\<dots> \<longleftrightarrow> (\<forall>r \<in> set (table w). expired now2 r \<longrightarrow> expired now r)"
      by auto
    finally show ?thesis
      by (simp only: cleanup_Up)
  qed
  show later: "(\<forall>r \<in> set (table w). expired now2 r \<longrightarrow> expired now r) \<longrightarrow>
      table (cleanupExpiredJobs (service c) now2 (cleanupExpiredJobs (service Up) now w)) =
        table (cleanupExpiredJobs (service Up) now w)" for now2
  proof (cases "c = Up")
    case True
    then show ?thesis using again [of now2] by simp
  next
    case False
    then show ?thesis by (simp add: cleanup_fault)
  qed
  show "table (cleanupExpiredJobs (service c) now (cleanupExpiredJobs (service Up) now w)) = table (cleanupExpiredJobs (service Up) now w)"
    using later [of now] by simp
qed (simp_all add: cleanup_fault)

text \<open>The theorem at the example world: a purge at 1704159800000 and a second one at
  1704159900000, when the row of the example has not yet expired.\<close>

theorem cleanupExpiredJobs_purges_witness:
  "table example_world = [stored_example] \<and>
   \<not> expired 1704159900000 stored_example \<and>
   table (cleanupExpiredJobs (service Up) 1704159800000 example_world) = [stored_example] \<and>
   table (cleanupExpiredJobs (service Up) 1704159900000
            (cleanupExpiredJobs (service Up) 1704159800000 example_world)) = [stored_example]"
proof -
  have tbl: "table example_world = [stored_example]"
    by (simp add: example_world_def)
  have fresh: "\<not> expired 1704159900000 stored_example" "\<not> expired 1704159800000 stored_example"
    by (simp_all add: expired_def stored_example_def)
  note purge = cleanupExpiredJobs_purges [where now = 1704159800000 and ?now2.0 = 1704159900000
      and w = example_world and c = Up]
  from purge have first: "table (cleanupExpiredJobs (service Up) 1704159800000 example_world) =
      filter (\<lambda>r. \<not> expired 1704159800000 r) (table example_world)"
    by blast
  from purge have "(\<forall>r \<in> set (table example_world). expired 1704159900000 r \<longrightarrow> expired 1704159800000 r) \<longrightarrow>
      table (cleanupExpiredJobs (service Up) 1704159900000 (cleanupExpiredJobs (service Up) 1704159800000 example_world)) =
        table (cleanupExpiredJobs (service Up) 1704159800000 example_world)"
    by blast
  with first tbl fresh show ?thesis
    by simp
qed

text \<open>Claim C2 as it is written fails in its last part: the row of the example stays when
  the purge runs at 1704159900000, and a second purge a millisecond later, with no write
  in between, deletes it.\<close>

theorem cleanupExpiredJobs_purges_counterexample:
  "table example_world = [stored_example] \<and>
   table (cleanupExpiredJobs (service Up) 1704159900000 example_world) = [stored_example] \<and>
   table (cleanupExpiredJobs (service Up) 1704159900001
            (cleanupExpiredJobs (service Up) 1704159900000 example_world)) = [] \<and>
   table (cleanupExpiredJobs (service Up) 1704159900001
            (cleanupExpiredJobs (service Up) 1704159900000 example_world)) \<noteq>
     table (cleanupExpiredJobs (service Up) 1704159900000 example_world)"
  by (simp add: cleanup_Up example_world_def expired_def) (simp add: stored_example_def)

subsection \<open>Delete, then read\<close>

lemma deleteJob_Up: "deleteJob (service Up) k w = (True, w\<lparr>table := filter (\<lambda>r. job_id r \<noteq> Val k) (table w)\<rparr>)"
  by (simp add: deleteJob_def supabaseRequest_Up_DELETE selected_job_id)

lemma deleteJob_table:
  "table (snd (deleteJob (service c) k w)) =
     (if c = Up then filter (\<lambda>r. job_id r \<noteq> Val k) (table w) else table w)"
  by (cases c)
     (simp_all add: deleteJob_def supabaseRequest_Up_DELETE supabaseRequest_faults
        selected_job_id logged_def)

lemma getJob_absent:
  "\<forall>r \<in> set (table w). job_id r \<noteq> Val k \<Longrightarrow> fst (getJob (service c) k w) = None"
proof (cases c)
  case Up
  assume "\<forall>r \<in> set (table w). job_id r \<noteq> Val k"
  then have "filter (selected [Job_id_eq k]) (table w) = []"
    by (simp add: selected_job_id filter_empty_conv)
  with Up show ?thesis
    by (simp add: getJob_def supabaseRequest_Up_GET ordered_def)
qed (simp_all add: getJob_def supabaseRequest_faults)

lemma getJob_fault: "c \<noteq> Up \<Longrightarrow> fst (getJob (service c) k w) = None"
  by (cases c) (simp_all add: getJob_def supabaseRequest_faults)

text \<open>
  Claim C8. After \<open>deleteJob k\<close>, \<open>getJob k\<close> returns \<^verbatim>\<open>null\<close>: when the store is in the
  same condition for both calls, whatever it is, and when the store carried out the delete,
  whatever its condition at the read. The boolean of \<open>deleteJob\<close> is whether the request
  was resolved, whatever the store: on the store modelled it is the same for every table,
  and \<^verbatim>\<open>true\<close> whenever the store is up, with or without a row of that id. In the example world the job J1 is read before the
  delete and absent after it.
\<close>

theorem deleteJob_then_getJob:
  "fst (getJob (service c) k (snd (deleteJob (service c) k w))) = None \<and>
   fst (getJob (service c') k (snd (deleteJob (service Up) k w))) = None \<and>
   fst (deleteJob s k w) =
     (case fst (supabaseRequest s DELETE [Job_id_eq k] None (table w)) of
        Inr r \<Rightarrow> True | Inl err \<Rightarrow> False) \<and>
   fst (deleteJob (service c) k (w\<lparr>table := tbl\<rparr>)) = fst (deleteJob (service c) k w) \<and>
   fst (deleteJob (service Up) k w) = True \<and>
   fst (getJob (service Up) ''J1'' example_world) = Some (rowToJob stored_example) \<and>
   fst (getJob (service Up) ''J1'' (snd (deleteJob (service Up) ''J1'' example_world))) = None"
proof (intro conjI)
  show "fst (getJob (service Up) ''J1'' example_world) = Some (rowToJob stored_example)"
    by (simp add: getJob_def supabaseRequest_Up_GET ordered_def selected_job_id example_world_def)
       (simp add: stored_example_def)
  show "fst (getJob (service Up) ''J1'' (snd (deleteJob (service Up) ''J1'' example_world))) = None"
    by (rule getJob_absent) (simp add: deleteJob_Up)
  show up: "fst (getJob (service c') k (snd (deleteJob (service Up) k w))) = None" for c'
    by (rule getJob_absent) (simp add: deleteJob_Up)
  show "fst (getJob (service c) k (snd (deleteJob (service c) k w))) = None"
    by (cases "c = Up") (simp_all add: up getJob_fault)
  show "fst (deleteJob s k w) =
     (case fst (supabaseRequest s DELETE [Job_id_eq k] None (table w)) of
        Inr r \<Rightarrow> True | Inl err \<Rightarrow> False)"
    by (simp add: deleteJob_def split: prod.splits sum.splits)
  show "fst (deleteJob (service c) k (w\<lparr>table := tbl\<rparr>)) = fst (deleteJob (service c) k w)"
    by (cases c) (simp_all add: deleteJob_def supabaseRequest_Up_DELETE supabaseRequest_faults)
  show "fst (deleteJob (service Up) k w) = True"
    by (simp add: deleteJob_Up)
qed

subsection \<open>Reading all jobs\<close>

lemma update_entries: "set (AList.update k v al) \<subseteq> insert (k, v) (set al)"
  by (induction al) auto

lemma keyed_update: "keyed al \<Longrightarrow> keyed (assign (property_key (job_id row)) (rowToJob row) al)"
  using update_entries [of "property_key (job_id row)" "rowToJob row" al]
  by (auto simp add: assign_def keyed_def distinct_update list_all_iff rowToJob_def)

lemma keyed_fold:
  "keyed al \<Longrightarrow>
   keyed (fold (\<lambda>row jobs. assign (property_key (job_id row)) (rowToJob row) jobs) rs al)"
  by (induction rs arbitrary: al) (simp_all add: keyed_update)

lemma keyed_getAllJobs: "keyed (fst (getAllJobs s w))"
proof -
  have "keyed []" by (simp add: keyed_def)
  then show ?thesis
    by (auto simp add: getAllJobs_def keyed_fold split: prod.splits sum.splits resolved.splits)
qed

lemma getAllJobs_rejected:
  "fst (supabaseRequest s GET [Order_created_at_desc] None (table w)) = Inl e \<Longrightarrow>
   fst (getAllJobs s w) = [] \<and>
   console (snd (getAllJobs s w)) = console w @ [Error_line ''getAllJobs error:'' e]"
  by (cases "supabaseRequest s GET [Order_created_at_desc] None (table w)")
     (simp add: getAllJobs_def logged_def)

lemma getAllJobs_resolved:
  "fst (supabaseRequest s GET [Order_created_at_desc] None (table w)) = Inr rows \<Longrightarrow>
   console (snd (getAllJobs s w)) = console w"
  by (cases "supabaseRequest s GET [Order_created_at_desc] None (table w)")
     (simp add: getAllJobs_def)

lemma server_get_all:
  "server s now1 now2 \<lparr>req_method = ''GET'', pathname = ''/api/jobs'', payload = p\<rparr> w =
     (\<lparr>status = 200, content = Jobs_json (fst (getAllJobs s w))\<rparr>, snd (getAllJobs s w))"
  by (simp add: server_def split: prod.splits)

text \<open>
  Claim C7. In every state of the table, and whatever the store does with the request,
  \<^verbatim>\<open>GET /api/jobs\<close> responds 200 with the object \<open>getAllJobs\<close> returns, which maps job
  ids to jobs. When the request of the adapter is rejected the object is empty and the
  error is written to the console; the exception does not reach the server. So it is when
  the store cannot be reached or gives an error status, where nothing else changes; and
  the object is empty when the table is.
\<close>

theorem getAllJobs_total:
  "server s now1 now2 \<lparr>req_method = ''GET'', pathname = ''/api/jobs'', payload = p\<rparr> w =
     (\<lparr>status = 200, content = Jobs_json (fst (getAllJobs s w))\<rparr>, snd (getAllJobs s w)) \<and>
   keyed (fst (getAllJobs s w)) \<and>
   (case fst (supabaseRequest s GET [Order_created_at_desc] None (table w)) of
      Inl e \<Rightarrow> fst (getAllJobs s w) = [] \<and>
               console (snd (getAllJobs s w)) = console w @ [Error_line ''getAllJobs error:'' e]
    | Inr rows \<Rightarrow> console (snd (getAllJobs s w)) = console w) \<and>
   getAllJobs (service Unreachable) w = ([], logged (Error_line ''getAllJobs error:'' SocketError) w) \<and>
   getAllJobs (service (Http_error n)) w =
     ([], logged (Error_line ''getAllJobs error:'' (SupabaseError (400 + n))) w) \<and>
   fst (getAllJobs (service Up) (w\<lparr>table := []\<rparr>)) = []"
proof (intro conjI)
  show "case fst (supabaseRequest s GET [Order_created_at_desc] None (table w)) of
      Inl e \<Rightarrow> fst (getAllJobs s w) = [] \<and>
               console (snd (getAllJobs s w)) = console w @ [Error_line ''getAllJobs error:'' e]
    | Inr rows \<Rightarrow> console (snd (getAllJobs s w)) = console w"
    by (cases "fst (supabaseRequest s GET [Order_created_at_desc] None (table w))")
       (simp_all add: getAllJobs_rejected getAllJobs_resolved)
  show "keyed (fst (getAllJobs s w))"
    by (rule keyed_getAllJobs)
qed (simp_all add: server_get_all getAllJobs_def supabaseRequest_faults
      supabaseRequest_Up_GET ordered_def)

subsection \<open>The expiration written to the store\<close>

text \<open>
  Claim C3. The \<^verbatim>\<open>expires_at\<close> of the body \<open>createJob\<close> and \<open>updateJob\<close> send is the
  result of \<open>calculateExpiresAt\<close> on the job they were given, and that one request is all
  the store sees, whatever store it is (when \<open>calculateExpiresAt\<close> throws, no body is
  built and nothing is sent). So, on the store modelled, the only row \<open>createJob\<close> ever
  adds to the table, and every row \<open>updateJob\<close> changes, holds that result in
  \<^verbatim>\<open>expires_at\<close>. The \<open>expiresAt\<close> of the job given has no effect on the state the
  functions leave. A body that is \<^verbatim>\<open>null\<close> leaves the table as it is. The example job given
  with \<open>expiresAt\<close> 7 is stored with the instant computed, 1704159900000; updated without
  its delay, again with \<open>expiresAt\<close> 7, it is stored with 1704159000000, the instant
  computed for 1530 minutes.
\<close>

theorem expires_at_recomputed:
  "(case createRow now1 now2 job of
      Inr row \<Rightarrow>
        (case calculateExpiresAt job of Inr e \<Rightarrow> expires_at row = nullable e | Inl err \<Rightarrow> False) \<and>
        table (snd (createJob s now1 now2 (Json_object job) w)) = snd (s POST [] (Some row) (table w))
    | Inl err \<Rightarrow>
        calculateExpiresAt job = Inl err \<and> table (snd (createJob s now1 now2 (Json_object job) w)) = table w) \<and>
   (case updateRow now job of
      Inr row \<Rightarrow>
        (case calculateExpiresAt job of Inr e \<Rightarrow> expires_at row = nullable e | Inl err \<Rightarrow> False) \<and>
        table (snd (updateJob s now k (Json_object job) w)) = snd (s PATCH [Job_id_eq k] (Some row) (table w))
    | Inl err \<Rightarrow>
        calculateExpiresAt job = Inl err \<and> table (snd (updateJob s now k (Json_object job) w)) = table w) \<and>
   (table (snd (createJob (service c) now1 now2 (Json_object job) w)) = table w \<or>
    (\<exists>e row. calculateExpiresAt job = Inr e \<and> expires_at row = nullable e \<and>
       table (snd (createJob (service c) now1 now2 (Json_object job) w)) = table w @ [row])) \<and>
   list_all2 (\<lambda>r r'. r' = r \<or> (\<exists>e. calculateExpiresAt job = Inr e \<and> expires_at r' = nullable e))
     (table w) (table (snd (updateJob (service c) now k (Json_object job) w))) \<and>
   snd (createJob s now1 now2 (Json_object (job\<lparr>expiresAt := x\<rparr>)) w) = snd (createJob s now1 now2 (Json_object job) w) \<and>
   snd (updateJob s now k (Json_object (job\<lparr>expiresAt := x\<rparr>)) w) = snd (updateJob s now k (Json_object job) w) \<and>
   map expires_at
     (table (snd (createJob (service Up) 1704000000000 1704000000001 (Json_object (example_job\<lparr>expiresAt := Val 7\<rparr>)) empty_world)))
     = [Val 1704159900000] \<and>
   map expires_at
     (table (snd (updateJob (service Up) 1704000005000 ''J1'' (Json_object (example_job\<lparr>delays := Null, expiresAt := Val 7\<rparr>)) example_world)))
     = [Val 1704159000000] \<and>
   table (snd (createJob s now1 now2 Json_null w)) = table w \<and>
   table (snd (updateJob s now k Json_null w)) = table w"
proof (intro conjI)
  show "table (snd (createJob s now1 now2 Json_null w)) = table w"
    by (simp add: createJob_null logged_def)
  show "table (snd (updateJob s now k Json_null w)) = table w"
    by (simp add: updateJob_null logged_def)
  show "map expires_at
     (table (snd (updateJob (service Up) 1704000005000 ''J1'' (Json_object (example_job\<lparr>delays := Null, expiresAt := Val 7\<rparr>)) example_world)))
     = [Val 1704159000000]"
    by (simp add: updateJob_world_expiresAt updateJob_table updateRow_def shorter_job_expires)
       (simp add: example_world_def stored_example_def patch_row_def)
  show "map expires_at
     (table (snd (createJob (service Up) 1704000000000 1704000000001 (Json_object (example_job\<lparr>expiresAt := Val 7\<rparr>)) empty_world)))
     = [Val 1704159900000]"
    by (simp add: createJob_world_expiresAt example_createJob)
       (simp add: example_world_def stored_example_def)
  show "case createRow now1 now2 job of
      Inr row \<Rightarrow>
        (case calculateExpiresAt job of Inr e \<Rightarrow> expires_at row = nullable e | Inl err \<Rightarrow> False) \<and>
        table (snd (createJob s now1 now2 (Json_object job) w)) = snd (s POST [] (Some row) (table w))
    | Inl err \<Rightarrow>
        calculateExpiresAt job = Inl err \<and> table (snd (createJob s now1 now2 (Json_object job) w)) = table w"
    by (cases "createRow now1 now2 job")
       (auto simp add: createJob_table_any dest: createRow_columns createRow_error)
  show "case updateRow now job of
      Inr row \<Rightarrow>
        (case calculateExpiresAt job of Inr e \<Rightarrow> expires_at row = nullable e | Inl err \<Rightarrow> False) \<and>
        table (snd (updateJob s now k (Json_object job) w)) = snd (s PATCH [Job_id_eq k] (Some row) (table w))
    | Inl err \<Rightarrow>
        calculateExpiresAt job = Inl err \<and> table (snd (updateJob s now k (Json_object job) w)) = table w"
    by (cases "updateRow now job")
       (auto simp add: updateJob_table_any dest: updateRow_columns updateRow_error)
  show "table (snd (createJob (service c) now1 now2 (Json_object job) w)) = table w \<or>
    (\<exists>e row. calculateExpiresAt job = Inr e \<and> expires_at row = nullable e \<and>
       table (snd (createJob (service c) now1 now2 (Json_object job) w)) = table w @ [row])"
  proof (cases "createRow now1 now2 job")
    case (Inl err)
    then show ?thesis by (simp add: createJob_table)
  next
    case (Inr row)
    then obtain e where "calculateExpiresAt job = Inr e" "expires_at row = nullable e"
      by (auto dest: createRow_columns)
    then have "expires_at (patch_row row null_row) = nullable e"
      by (simp add: patch_row_columns written_nullable)
    with Inr \<open>calculateExpiresAt job = Inr e\<close> show ?thesis
      by (auto simp add: createJob_table split: js.splits)
  qed
  show "list_all2 (\<lambda>r r'. r' = r \<or> (\<exists>e. calculateExpiresAt job = Inr e \<and> expires_at r' = nullable e))
     (table w) (table (snd (updateJob (service c) now k (Json_object job) w)))"
  proof (cases "updateRow now job")
    case (Inl err)
    then show ?thesis by (simp add: updateJob_table list_all2_same)
  next
    case (Inr row)
    then obtain e where "calculateExpiresAt job = Inr e" "expires_at row = nullable e"
      by (auto dest: updateRow_columns)
    then have "expires_at (patch_row row r) = nullable e" for r
      by (simp add: patch_row_columns written_nullable)
    with Inr \<open>calculateExpiresAt job = Inr e\<close> show ?thesis
      by (simp add: updateJob_table list_all2_map2 list_all2_same)
  qed
qed (simp_all add: createJob_world_expiresAt updateJob_world_expiresAt)

subsection \<open>What \<open>createJob\<close> returns\<close>

lemma createJob_Some:
  "fst (createJob s now1 now2 (Json_object job) w) = Some j \<Longrightarrow>
   j = job \<and> (\<exists>row r. createRow now1 now2 job = Inr row \<and>
      fst (supabaseRequest s POST [] (Some row) (table w)) = Inr r)"
  by (auto simp add: createJob_def split: sum.splits prod.splits)

text \<open>
  Claim C4, as the code has it. When \<open>createJob\<close> succeeds it returns the job it was
  given: \<open>createdAt\<close> and \<open>expiresAt\<close> of the result are the caller's (absent when the
  caller gave none), and so is every other field, \<open>lastUpdated\<close> left aside. The
  timestamps the server assigns are in the row it sent, and the adapter resolved that
  request: \<^verbatim>\<open>created_at\<close> is the value given or the clock, \<^verbatim>\<open>last_updated\<close> the clock,
  \<^verbatim>\<open>expires_at\<close> the result of \<open>calculateExpiresAt\<close>. On a body that is \<^verbatim>\<open>null\<close>
  \<open>createJob\<close> does not succeed.
\<close>

theorem createJob_returns_job_given:
  "(fst (createJob s now1 now2 (Json_object job) w) = Some j \<longrightarrow>
     createdAt j = createdAt job \<and> expiresAt j = expiresAt job \<and>
     j\<lparr>lastUpdated := Undefined\<rparr> = job\<lparr>lastUpdated := Undefined\<rparr> \<and>
     (\<exists>row e r. createRow now1 now2 job = Inr row \<and> calculateExpiresAt job = Inr e \<and>
        fst (supabaseRequest s POST [] (Some row) (table w)) = Inr r \<and>
        created_at row = Val (or_value (createdAt job) now1) \<and>
        last_updated row = Val now2 \<and>
        expires_at row = nullable e)) \<and>
   fst (createJob s now1 now2 Json_null w) = None"
proof (rule conjI, rule impI)
  assume "fst (createJob s now1 now2 (Json_object job) w) = Some j"
  then obtain row r where j: "j = job" and row: "createRow now1 now2 job = Inr row"
    and r: "fst (supabaseRequest s POST [] (Some row) (table w)) = Inr r"
    by (auto dest: createJob_Some)
  from row obtain e where "calculateExpiresAt job = Inr e" "expires_at row = nullable e"
    "created_at row = Val (or_value (createdAt job) now1)" "last_updated row = Val now2"
    by (auto dest: createRow_columns)
  with j row r show "createdAt j = createdAt job \<and> expiresAt j = expiresAt job \<and>
     j\<lparr>lastUpdated := Undefined\<rparr> = job\<lparr>lastUpdated := Undefined\<rparr> \<and>
     (\<exists>row e r. createRow now1 now2 job = Inr row \<and> calculateExpiresAt job = Inr e \<and>
        fst (supabaseRequest s POST [] (Some row) (table w)) = Inr r \<and>
        created_at row = Val (or_value (createdAt job) now1) \<and>
        last_updated row = Val now2 \<and>
        expires_at row = nullable e)"
    by blast
next
  show "fst (createJob s now1 now2 Json_null w) = None"
    by (simp add: createJob_null)
qed

text \<open>The theorem at the example job, created in an empty table.\<close>

theorem createJob_returns_job_given_witness:
  "fst (createJob (service Up) 1704000000000 1704000000001 (Json_object example_job) empty_world) = Some example_job \<and>
   createdAt example_job = Undefined \<and> expiresAt example_job = Undefined \<and>
   (\<exists>row. createRow 1704000000000 1704000000001 example_job = Inr row \<and>
      created_at row = Val 1704000000000 \<and> last_updated row = Val 1704000000001 \<and>
      expires_at row = Val 1704159900000)"
proof -
  have h: "fst (createJob (service Up) 1704000000000 1704000000001 (Json_object example_job) empty_world) = Some example_job"
    by (simp add: example_createJob)
  have u: "createdAt example_job = Undefined" "expiresAt example_job = Undefined"
    by (simp_all add: example_job_def)
  from h createJob_returns_job_given
    [of "service Up" 1704000000000 1704000000001 example_job empty_world example_job]
  obtain row e where "createRow 1704000000000 1704000000001 example_job = Inr row"
    "calculateExpiresAt example_job = Inr e"
    "created_at row = Val (or_value (createdAt example_job) 1704000000000)"
    "last_updated row = Val 1704000000001" "expires_at row = nullable e"
    by blast
  with h u show ?thesis
    by (auto simp add: example_job_expires)
qed

text \<open>Claim C4 as it is written fails: the job returned for the example has none of the
  three timestamps the server assigned.\<close>

theorem createJob_returns_job_given_counterexample:
  "fst (createJob (service Up) 1704000000000 1704000000001 (Json_object example_job) empty_world) = Some example_job \<and>
   createdAt example_job \<noteq> Val 1704000000000 \<and>
   lastUpdated example_job \<noteq> Val 1704000000001 \<and>
   calculateExpiresAt example_job = Inr (Some 1704159900000) \<and>
   expiresAt example_job \<noteq> Val 1704159900000"
  by (simp add: example_createJob example_job_expires) (simp add: example_job_def)

subsection \<open>\<^verbatim>\<open>POST /api/jobs\<close> when the store fails\<close>

lemma server_post_jobs:
  "server s now1 now2 (post_jobs job) w =
     (case createJob s now1 now2 (Json_object job) w of
        (Some created, w') \<Rightarrow> (\<lparr>status = 201, content = Job_json created\<rparr>, w')
      | (None, w') \<Rightarrow> (\<lparr>status = 201, content = Null_json\<rparr>, w'))"
  by (simp add: server_def post_jobs_def)

lemma createJob_rejected:
  "createRow now1 now2 job = Inr row \<Longrightarrow>
   fst (supabaseRequest (service c) POST [] (Some row) (table w)) = Inl err \<Longrightarrow>
   createJob (service c) now1 now2 (Json_object job) w = (None, logged (Error_line ''createJob error:'' err) w)"
  by (cases "supabaseRequest (service c) POST [] (Some row) (table w)")
     (auto simp add: createJob_def dest: supabaseRequest_rejected)

lemma createJob_result:
  "fst (createJob s now1 now2 (Json_object job) w) =
     (case createRow now1 now2 job of
        Inl err \<Rightarrow> None
      | Inr row \<Rightarrow>
          (case fst (supabaseRequest s POST [] (Some row) (table w)) of
             Inl err \<Rightarrow> None
           | Inr r \<Rightarrow> Some job))"
  by (auto simp add: createJob_def split: sum.splits prod.splits)

lemma post_jobs_status: "status (fst (server s now1 now2 (post_jobs job) w)) = 201"
  by (simp add: server_post_jobs split: prod.splits option.splits)

text \<open>
  Claim C5 says that \<^verbatim>\<open>POST /api/jobs\<close> responds with a 500-class status when the
  request of the adapter fails. Whatever the store, the server responds 201 to every such
  request whose body parses; the body of the response is \<^verbatim>\<open>null\<close> when the request of
  the adapter is rejected (or none is made), the job given otherwise. So it is with the
  store unreachable, and with the store up and the id taken (the store answers 409); and
  so it is when the body is \<^verbatim>\<open>null\<close>. \<open>createJob\<close> returns \<^verbatim>\<open>null\<close> and the route does not look at it, as the routes of
  \<open>getJob\<close> and \<open>updateJob\<close> do.
\<close>

theorem post_jobs_created_on_failure:
  "status (fst (server s now1 now2 (post_jobs job) w)) = 201 \<and>
   content (fst (server s now1 now2 (post_jobs job) w)) =
     (case createRow now1 now2 job of
        Inl err \<Rightarrow> Null_json
      | Inr row \<Rightarrow>
          (case fst (supabaseRequest s POST [] (Some row) (table w)) of
             Inl err \<Rightarrow> Null_json
           | Inr r \<Rightarrow> Job_json job)) \<and>
   createRow 1704000000000 1704000000001 example_job = Inr example_body \<and>
   fst (supabaseRequest (service Unreachable) POST [] (Some example_body) (table empty_world)) = Inl SocketError \<and>
   server (service Unreachable) 1704000000000 1704000000001 (post_jobs example_job) empty_world =
     (\<lparr>status = 201, content = Null_json\<rparr>,
      logged (Error_line ''createJob error:'' SocketError) empty_world) \<and>
   fst (supabaseRequest (service Up) POST [] (Some example_body) (table example_world)) = Inl (SupabaseError 409) \<and>
   server (service Up) 1704000000000 1704000000001 (post_jobs example_job) example_world =
     (\<lparr>status = 201, content = Null_json\<rparr>,
      logged (Error_line ''createJob error:'' (SupabaseError 409)) example_world) \<and>
   server s now1 now2 \<lparr>req_method = ''POST'', pathname = ''/api/jobs'', payload = Some Json_null\<rparr> w =
     (\<lparr>status = 201, content = Null_json\<rparr>, logged (Error_line ''createJob error:'' TypeError) w)"
proof (intro conjI)
  show "server s now1 now2 \<lparr>req_method = ''POST'', pathname = ''/api/jobs'', payload = Some Json_null\<rparr> w =
     (\<lparr>status = 201, content = Null_json\<rparr>, logged (Error_line ''createJob error:'' TypeError) w)"
    by (simp add: server_def createJob_null)
  show "status (fst (server s now1 now2 (post_jobs job) w)) = 201"
    by (rule post_jobs_status)
  show "content (fst (server s now1 now2 (post_jobs job) w)) =
     (case createRow now1 now2 job of
        Inl err \<Rightarrow> Null_json
      | Inr row \<Rightarrow>
          (case fst (supabaseRequest s POST [] (Some row) (table w)) of
             Inl err \<Rightarrow> Null_json
           | Inr r \<Rightarrow> Job_json job))"
    using createJob_result [of s now1 now2 job w]
    by (cases "createJob s now1 now2 (Json_object job) w")
       (auto simp add: server_post_jobs split: sum.splits option.splits)
  show "createRow 1704000000000 1704000000001 example_job = Inr example_body"
    by (rule example_createRow)
  show a: "fst (supabaseRequest (service Unreachable) POST [] (Some example_body) (table empty_world)) = Inl SocketError"
    by (simp add: supabaseRequest_faults)
  show b: "fst (supabaseRequest (service Up) POST [] (Some example_body) (table example_world)) = Inl (SupabaseError 409)"
    by (simp add: supabaseRequest_Up_POST example_world_def example_body_def)
       (simp add: stored_example_def)
  show "server (service Unreachable) 1704000000000 1704000000001 (post_jobs example_job) empty_world =
     (\<lparr>status = 201, content = Null_json\<rparr>,
      logged (Error_line ''createJob error:'' SocketError) empty_world)"
    by (simp add: server_post_jobs createJob_rejected [OF example_createRow a])
  show "server (service Up) 1704000000000 1704000000001 (post_jobs example_job) example_world =
     (\<lparr>status = 201, content = Null_json\<rparr>,
      logged (Error_line ''createJob error:'' (SupabaseError 409)) example_world)"
    by (simp add: server_post_jobs createJob_rejected [OF example_createRow b])
qed

subsection \<open>What \<open>updateJob\<close> leaves alone\<close>

lemma written_Undefined: "written Undefined old = old"
  by simp

lemma updateJob_rows:
  "list_all2 (\<lambda>r r'. r' = r \<or>
       (\<exists>row. updateRow now job = Inr row \<and> job_id r = Val k \<and> r' = patch_row row r))
     (table w) (table (snd (updateJob (service c) now k (Json_object job) w)))"
  by (cases "updateRow now job")
     (simp_all add: updateJob_table list_all2_map2 list_all2_same)

lemma patch_row_update:
  "updateRow now job = Inr row \<Longrightarrow>
   job_id (patch_row row r) = job_id r \<and> created_at (patch_row row r) = created_at r \<and>
   last_updated (patch_row row r) = Val now"
  by (auto simp add: patch_row_columns dest: updateRow_columns)

text \<open>
  Claim C6, as the code has it. The body \<open>updateJob\<close> sends has no \<^verbatim>\<open>job_id\<close> and no
  \<^verbatim>\<open>created_at\<close>, and its \<^verbatim>\<open>last_updated\<close> is the clock; that one \<^verbatim>\<open>PATCH\<close> is all the
  store sees, whatever store it is. On the store modelled: when the store carries the
  request out, \<^verbatim>\<open>last_updated\<close> of every row of that id is the clock and that of the
  other rows is as before. In every condition of the store each row keeps its
  \<^verbatim>\<open>job_id\<close> and its \<^verbatim>\<open>created_at\<close>, and is either unchanged or a row of that id whose
  \<^verbatim>\<open>last_updated\<close> is the clock. The new \<^verbatim>\<open>last_updated\<close> of a row is at least the one
  before when the clock reads no earlier than the one before; the code does not compare
  them. A body that is \<^verbatim>\<open>null\<close> leaves the table as it is.
\<close>

theorem updateJob_frame:
  "(\<forall>row. updateRow now job = Inr row \<longrightarrow>
      job_id row = Undefined \<and> created_at row = Undefined \<and> last_updated row = Val now \<and>
      table (snd (updateJob s now k (Json_object job) w)) = snd (s PATCH [Job_id_eq k] (Some row) (table w)) \<and>
      map last_updated (table (snd (updateJob (service Up) now k (Json_object job) w))) =
        map (\<lambda>r. if job_id r = Val k then Val now else last_updated r) (table w)) \<and>
   list_all2 (\<lambda>r r'. job_id r' = job_id r \<and> created_at r' = created_at r \<and>
                (r' = r \<or> (job_id r = Val k \<and> last_updated r' = Val now)))
     (table w) (table (snd (updateJob (service c) now k (Json_object job) w))) \<and>
   list_all2 (\<lambda>r r'. \<forall>t. last_updated r = Val t \<and> t \<le> now \<longrightarrow>
                (\<exists>t'. last_updated r' = Val t' \<and> t \<le> t'))
     (table w) (table (snd (updateJob (service c) now k (Json_object job) w))) \<and>
   table (snd (updateJob s now k Json_null w)) = table w"
proof (intro conjI allI impI)
  show "table (snd (updateJob s now k Json_null w)) = table w"
    by (simp add: updateJob_null logged_def)
next
  fix row
  assume row: "updateRow now job = Inr row"
  then show "job_id row = Undefined" "created_at row = Undefined" "last_updated row = Val now"
    by (auto dest: updateRow_columns)
  from row show "table (snd (updateJob s now k (Json_object job) w)) = snd (s PATCH [Job_id_eq k] (Some row) (table w))"
    by (simp add: updateJob_table_any)
  from row show "map last_updated (table (snd (updateJob (service Up) now k (Json_object job) w))) =
        map (\<lambda>r. if job_id r = Val k then Val now else last_updated r) (table w)"
    by (simp add: updateJob_table patch_row_update)
next
  show "list_all2 (\<lambda>r r'. job_id r' = job_id r \<and> created_at r' = created_at r \<and>
                (r' = r \<or> (job_id r = Val k \<and> last_updated r' = Val now)))
     (table w) (table (snd (updateJob (service c) now k (Json_object job) w)))"
    by (rule list_all2_mono [OF updateJob_rows]) (auto simp add: patch_row_update)
  show "list_all2 (\<lambda>r r'. \<forall>t. last_updated r = Val t \<and> t \<le> now \<longrightarrow>
                (\<exists>t'. last_updated r' = Val t' \<and> t \<le> t'))
     (table w) (table (snd (updateJob (service c) now k (Json_object job) w)))"
    by (rule list_all2_mono [OF updateJob_rows]) (auto simp add: patch_row_update)
qed

lemma example_updateRow:
  "updateRow t example_job =
     Inr (example_body\<lparr>job_id := Undefined, created_at := Undefined, last_updated := Val t\<rparr>)"
  by (simp add: updateRow_def example_job_expires)
     (simp add: example_job_def example_body_def stored_example_def utc_examples)

lemma example_updateJob_table:
  "table (snd (updateJob (service Up) t ''J1'' (Json_object example_job) example_world)) =
     [stored_example\<lparr>last_updated := Val t\<rparr>]"
  by (simp add: updateJob_table example_updateRow)
     (simp add: example_world_def example_body_def stored_example_def patch_row_def)

text \<open>The theorem at the example: the row stamped 1704000000001 is updated when the
  clock reads 1704000005000, and keeps its \<^verbatim>\<open>job_id\<close> and its \<^verbatim>\<open>created_at\<close>.\<close>

theorem updateJob_frame_witness:
  "updateRow 1704000005000 example_job =
     Inr (example_body\<lparr>job_id := Undefined, created_at := Undefined, last_updated := Val 1704000005000\<rparr>) \<and>
   map last_updated (table (snd (updateJob (service Up) 1704000005000 ''J1'' (Json_object example_job) example_world))) =
     [Val 1704000005000] \<and>
   map job_id (table (snd (updateJob (service Up) 1704000005000 ''J1'' (Json_object example_job) example_world))) =
     [Val ''J1''] \<and>
   map created_at (table (snd (updateJob (service Up) 1704000005000 ''J1'' (Json_object example_job) example_world))) =
     [Val 1704000000000] \<and>
   last_updated stored_example = Val 1704000000001 \<and>
   (1704000000001::int) \<le> 1704000005000"
proof -
  let ?after = "table (snd (updateJob (service Up) 1704000005000 ''J1'' (Json_object example_job) example_world))"
  have row: "updateRow 1704000005000 example_job =
     Inr (example_body\<lparr>job_id := Undefined, created_at := Undefined, last_updated := Val 1704000005000\<rparr>)"
    by (rule example_updateRow)
  have tbl: "table example_world = [stored_example]"
    by (simp add: example_world_def)
  have old: "job_id stored_example = Val ''J1''" "created_at stored_example = Val 1704000000000"
    "last_updated stored_example = Val 1704000000001"
    by (simp_all add: stored_example_def)
  note frame = updateJob_frame [where now = 1704000005000 and job = example_job and k = "''J1''"
      and w = example_world and c = Up and s = "service Up"]
  from frame row have "map last_updated ?after =
      map (\<lambda>r. if job_id r = Val ''J1'' then Val 1704000005000 else last_updated r) (table example_world)"
    by blast
  then have stamp: "map last_updated ?after = [Val 1704000005000]"
    by (simp add: tbl old)
  from frame have "list_all2 (\<lambda>r r'. job_id r' = job_id r \<and> created_at r' = created_at r \<and>
      (r' = r \<or> (job_id r = Val ''J1'' \<and> last_updated r' = Val 1704000005000)))
      (table example_world) ?after"
    by blast
  then have kept: "map job_id ?after = [Val ''J1''] \<and> map created_at ?after = [Val 1704000000000]"
    by (auto simp add: tbl old list_all2_Cons1)
  from frame have "list_all2 (\<lambda>r r'. \<forall>t. last_updated r = Val t \<and> t \<le> 1704000005000 \<longrightarrow>
      (\<exists>t'. last_updated r' = Val t' \<and> t \<le> t')) (table example_world) ?after"
    by blast
  with row stamp kept old show ?thesis
    by simp
qed

text \<open>Claim C6 as it is written fails: the same row updated when the clock reads
  1703999999000, before the stamp the row holds, ends with a \<^verbatim>\<open>last_updated\<close> earlier
  than the one before.\<close>

theorem updateJob_frame_counterexample:
  "table example_world = [stored_example] \<and>
   last_updated stored_example = Val 1704000000001 \<and>
   map last_updated (table (snd (updateJob (service Up) 1703999999000 ''J1'' (Json_object example_job) example_world))) =
     [Val 1703999999000] \<and>
   (1703999999000::int) < 1704000000001"
  by (simp add: example_updateJob_table) (simp add: example_world_def stored_example_def)

subsection \<open>\<^verbatim>\<open>PUT\<close> of an id the table does not have\<close>














end
